theory Spec2Isabelle
  imports Main
begin

section \<open>Inbound stream handling of the DHT (dht\_net.go)\<close>

text \<open>
  The file \<^verbatim>\<open>dht_net.go\<close> holds two methods of \<^verbatim>\<open>IpfsDHT\<close>:
  \<^verbatim>\<open>handleNewStream\<close>, which closes or resets an inbound stream, and
  \<^verbatim>\<open>handleNewMessage\<close>, the read-dispatch-respond loop of one stream.
  Everything the loop does beyond computing its boolean is an effect on something
  outside it: the mode flag of the node, the stream, the idle timer, the metric
  instruments, the debug log. The embedding makes these explicit. The answers of
  the outside (what \<^verbatim>\<open>getMode\<close>, \<^verbatim>\<open>ReadMsg\<close> and \<^verbatim>\<open>WriteMsg\<close> return, call after
  call) are scripts held in the state, and every call the loop makes is appended to
  a trace, in program order.
\<close>

subsection \<open>Data\<close>

type_synonym bytes = "nat list"

type_synonym peerID = string

type_synonym goContext = string

text \<open>
  \<^verbatim>\<open>pb.Message_MessageType\<close> is an \<^verbatim>\<open>int32\<close> enumeration of the wire schema. The
  schema is not part of the two source files, so the tag is kept as the integer it is
  and its \<^verbatim>\<open>String()\<close> method is a parameter of the node (\<open>typeString\<close> below).
\<close>

type_synonym MessageType = int

record Message =
  msgType :: MessageType
  msgKey :: bytes
  msgBody :: bytes

text \<open>
  Go errors. \<^verbatim>\<open>io.EOF\<close> is one distinguished error value, compared by identity
  (\<^verbatim>\<open>err == io.EOF\<close>); any other error is known to the loop only through its text
  (\<^verbatim>\<open>err.Error()\<close>).
\<close>

datatype error = io_EOF | OtherError string

fun Error :: "error \<Rightarrow> string" where
  "Error io_EOF = ''EOF''"
| "Error (OtherError s) = s"

text \<open>The operating mode returned by \<^verbatim>\<open>dht.getMode()\<close>.\<close>

datatype opMode = modeServer | modeClient

text \<open>The three \<^verbatim>\<open>Int64Counter\<close> instruments of package metrics that the loop uses.\<close>

datatype counter = ReceivedMessages | ReceivedMessageErrors | ReceivedBytes

text \<open>
  A handler takes \<^verbatim>\<open>(ctx, peer, request)\<close> and returns the Go pair
  \<^verbatim>\<open>(resp *pb.Message, err error)\<close>; either component may be nil.
\<close>

type_synonym dhtHandler = "goContext \<Rightarrow> peerID \<Rightarrow> Message \<Rightarrow> Message option \<times> error option"

text \<open>
  Every call the two methods make to the outside, with its arguments and, where the
  call returns something, its result. The \<^verbatim>\<open>ctx\<close> argument of the metric calls is the
  same \<^verbatim>\<open>dht.ctx\<close> throughout and is left out of them; the attribute set of a metric
  call is its single \<^verbatim>\<open>message_type\<close> string. Of a debug line only the message text
  is kept. The value of a latency sample is a wall-clock float and is not modelled.
\<close>

datatype event =
    EvGetMode opMode
  | EvTimerAfterFunc int
  | EvTimerReset int
  | EvTimerStop
  | EvReadMsg bytes "error option"
  | EvReleaseMsg bytes
  | EvUnmarshal bytes bool
  | EvLog string
  | EvAdd counter int string
  | EvOnRequestHook goContext Message
  | EvHandlerForMsgType MessageType bool
  | EvHandler goContext peerID Message "Message option" "error option"
  | EvWriteMsg Message "error option"
  | EvLatencyRecord string
  | EvClose
  | EvReset

text \<open>
  The receiver. \<open>ctx\<close>, \<open>onRequestHook\<close> and \<open>handlerForMsgType\<close> are members of
  \<^verbatim>\<open>IpfsDHT\<close>; the hook is observational (it returns nothing), so only its presence
  is recorded. The last three fields stand for code outside the two source files:
  \<^verbatim>\<open>pb.Message.Unmarshal\<close>, the \<^verbatim>\<open>String()\<close> method of the message type, and whether
  \<^verbatim>\<open>baseLogger.Check(zap.DebugLevel, _)\<close> returns a non-nil entry.
\<close>

record IpfsDHT =
  ctx :: goContext
  onRequestHook :: "unit option"
  handlerForMsgType :: "MessageType \<Rightarrow> dhtHandler option"
  Unmarshal :: "bytes \<Rightarrow> error + Message"
  typeString :: "MessageType \<Rightarrow> string"
  debugEnabled :: bool

text \<open>
  The state outside the loop. \<open>modes\<close>, \<open>incoming\<close> and \<open>writeResults\<close> are the
  answers still to come of \<^verbatim>\<open>dht.getMode()\<close>, \<^verbatim>\<open>r.ReadMsg()\<close> and
  \<^verbatim>\<open>net.WriteMsg(s, _)\<close>; a call takes the head. A call on an empty script has no
  answer: the run is blocked there and the model returns \<open>None\<close>. An idle timer that
  fires resets the stream from another goroutine; the loop sees it as a failed read,
  which is an entry of \<open>incoming\<close>.
\<close>

record world =
  remotePeer :: peerID
  modes :: "opMode list"
  incoming :: "(bytes \<times> error option) list"
  writeResults :: "error option list"
  trace :: "event list"

text \<open>\<^verbatim>\<open>var dhtStreamIdleTimeout = 1 * time.Minute\<close>, a \<^verbatim>\<open>time.Duration\<close> in nanoseconds.\<close>

definition dhtStreamIdleTimeout :: int where
  "dhtStreamIdleTimeout = 1 * 60000000000"

subsection \<open>The calls to the outside\<close>

definition emit :: "event \<Rightarrow> world \<Rightarrow> world" where
  "emit e w = w\<lparr>trace := trace w @ [e]\<rparr>"

definition getMode :: "world \<Rightarrow> (opMode \<times> world) option" where
  "getMode w =
     (case modes w of
        [] \<Rightarrow> None
      | m # ms \<Rightarrow> Some (m, emit (EvGetMode m) (w\<lparr>modes := ms\<rparr>)))"

definition ReadMsg :: "world \<Rightarrow> ((bytes \<times> error option) \<times> world) option" where
  "ReadMsg w =
     (case incoming w of
        [] \<Rightarrow> None
      | r # rs \<Rightarrow> Some (r, emit (EvReadMsg (fst r) (snd r)) (w\<lparr>incoming := rs\<rparr>)))"

definition WriteMsg :: "Message \<Rightarrow> world \<Rightarrow> (error option \<times> world) option" where
  "WriteMsg resp w =
     (case writeResults w of
        [] \<Rightarrow> None
      | r # rs \<Rightarrow> Some (r, emit (EvWriteMsg resp r) (w\<lparr>writeResults := rs\<rparr>)))"

definition Add :: "counter \<Rightarrow> int \<Rightarrow> string \<Rightarrow> world \<Rightarrow> world" where
  "Add c n attributes w = emit (EvAdd c n attributes) w"

definition logDebug :: "IpfsDHT \<Rightarrow> string \<Rightarrow> world \<Rightarrow> world" where
  "logDebug dht msg w = (if debugEnabled dht then emit (EvLog msg) w else w)"

subsection \<open>One pass through the body of the loop\<close>

text \<open>
  A pass through the body of \<^verbatim>\<open>for { ... }\<close> ends in \<^verbatim>\<open>return b\<close> or reaches the next
  pass (by \<^verbatim>\<open>continue\<close> or by the end of the body).
\<close>

datatype outcome = Continue world | Return bool world

text \<open>
  Lines 87 to 160: the part of the body after a frame has been read and decoded into
  \<open>req\<close>; \<open>msgLen\<close> is the length of the frame.
\<close>

definition serveRequest :: "IpfsDHT \<Rightarrow> int \<Rightarrow> Message \<Rightarrow> world \<Rightarrow> outcome option" where
  "serveRequest dht msgLen req w0 =
     (let w1 = emit (EvTimerReset dhtStreamIdleTimeout) w0;
          attributes = typeString dht (msgType req);
          w2 = Add ReceivedMessages 1 attributes w1;
          w3 = Add ReceivedBytes msgLen attributes w2;
          w4 = (case onRequestHook dht of
                  None \<Rightarrow> w3
                | Some _ \<Rightarrow> emit (EvOnRequestHook (ctx dht) req) w3)
      in case handlerForMsgType dht (msgType req) of
           None \<Rightarrow>
             Some (Return False
               (logDebug dht ''can't handle received message''
                 (Add ReceivedMessageErrors 1 attributes
                   (emit (EvHandlerForMsgType (msgType req) False) w4))))
         | Some handler \<Rightarrow>
             (let w5 = logDebug dht ''handling message''
                         (emit (EvHandlerForMsgType (msgType req) True) w4);
                  res = handler (ctx dht) (remotePeer w5) req;
                  w6 = emit (EvHandler (ctx dht) (remotePeer w5) req (fst res) (snd res)) w5
              in case snd res of
                   Some err \<Rightarrow>
                     Some (Return False
                       (logDebug dht ''error handling message''
                         (Add ReceivedMessageErrors 1 attributes w6)))
                 | None \<Rightarrow>
                     (let w7 = logDebug dht ''handled message'' w6
                      in case fst res of
                           None \<Rightarrow> Some (Continue w7)
                         | Some resp \<Rightarrow>
                             (case WriteMsg resp w7 of
                                None \<Rightarrow> None
                              | Some (Some err, w8) \<Rightarrow>
                                  Some (Return False
                                    (logDebug dht ''error writing response''
                                      (Add ReceivedMessageErrors 1 attributes w8)))
                              | Some (None, w8) \<Rightarrow>
                                  Some (Continue
                                    (emit (EvLatencyRecord attributes)
                                      (logDebug dht ''responded to message'' w8)))))))"

text \<open>Lines 46 to 85, continued by \<open>serveRequest\<close>: the whole body of the loop.\<close>

definition iteration :: "IpfsDHT \<Rightarrow> world \<Rightarrow> outcome option" where
  "iteration dht w0 =
     (case getMode w0 of
        None \<Rightarrow> None
      | Some (m, w1) \<Rightarrow>
          if m \<noteq> modeServer then
            Some (Return False
              (logDebug dht ''ignoring incoming dht message while not in server mode'' w1))
          else
            (case ReadMsg w1 of
               None \<Rightarrow> None
             | Some ((msgbytes, rerr), w2) \<Rightarrow>
                 (let msgLen = int (length msgbytes)
                  in case rerr of
                       Some err \<Rightarrow>
                         (let w3 = emit (EvReleaseMsg msgbytes) w2
                          in if err = io_EOF then Some (Return True w3)
                             else
                               (let w4 = (if debugEnabled dht \<and> Error err \<noteq> ''stream reset''
                                          then emit (EvLog ''error reading message'') w3
                                          else w3);
                                    w5 = (if msgLen > 0
                                          then Add ReceivedBytes msgLen ''UNKNOWN''
                                                 (Add ReceivedMessageErrors 1 ''UNKNOWN''
                                                   (Add ReceivedMessages 1 ''UNKNOWN'' w4))
                                          else w4)
                                in Some (Return False w5)))
                     | None \<Rightarrow>
                         (case Unmarshal dht msgbytes of
                            Inl err \<Rightarrow>
                              Some (Return False
                                (Add ReceivedBytes msgLen ''UNKNOWN''
                                  (Add ReceivedMessageErrors 1 ''UNKNOWN''
                                    (Add ReceivedMessages 1 ''UNKNOWN''
                                      (logDebug dht ''error unmarshaling message''
                                        (emit (EvReleaseMsg msgbytes)
                                          (emit (EvUnmarshal msgbytes False) w2)))))))
                          | Inr req \<Rightarrow>
                              serveRequest dht msgLen req
                                (emit (EvReleaseMsg msgbytes)
                                  (emit (EvUnmarshal msgbytes True) w2))))))"

subsection \<open>The loop and the two methods\<close>

function loop :: "IpfsDHT \<Rightarrow> world \<Rightarrow> (bool \<times> world) option" where
  "loop dht w =
     (case iteration dht w of
        None \<Rightarrow> None
      | Some (Return b w') \<Rightarrow> Some (b, w')
      | Some (Continue w') \<Rightarrow> loop dht w')"
  by pat_completeness auto
termination
  by (relation "measure (\<lambda>(dht, w). length (modes w))")
     (auto simp: iteration_def serveRequest_def getMode_def ReadMsg_def WriteMsg_def
        emit_def Add_def logDebug_def Let_def
      split: list.splits option.splits if_splits sum.splits prod.splits)

text \<open>
  The script of mode answers gets shorter with every pass, so the loop of the model
  always ends: in a \<^verbatim>\<open>return\<close>, or blocked in a call whose script is used up.
\<close>

text \<open>
  \<^verbatim>\<open>handleNewMessage\<close>: the timer is started before the loop, and the deferred
  \<^verbatim>\<open>timer.Stop()\<close> runs when the method returns.
\<close>

definition handleNewMessage :: "IpfsDHT \<Rightarrow> world \<Rightarrow> (bool \<times> world) option" where
  "handleNewMessage dht w =
     (case loop dht (emit (EvTimerAfterFunc dhtStreamIdleTimeout) w) of
        None \<Rightarrow> None
      | Some (b, w') \<Rightarrow> Some (b, emit EvTimerStop w'))"

definition handleNewStream :: "IpfsDHT \<Rightarrow> world \<Rightarrow> world option" where
  "handleNewStream dht w =
     (case handleNewMessage dht w of
        None \<Rightarrow> None
      | Some (b, w') \<Rightarrow> if b then Some (emit EvClose w') else Some (emit EvReset w'))"

subsection \<open>Reading the trace\<close>

text \<open>
  The properties below are about what a pass, or a whole session, appended to the
  trace. \<open>added w w'\<close> is what was appended between the states \<open>w\<close> and \<open>w'\<close>; the
  predicates select the kinds of call a property counts.
\<close>

fun worldOf :: "outcome \<Rightarrow> world" where
  "worldOf (Continue w) = w"
| "worldOf (Return b w) = w"

definition added :: "world \<Rightarrow> world \<Rightarrow> event list" where
  "added w w' = drop (length (trace w)) (trace w')"

fun isAdd :: "counter \<Rightarrow> event \<Rightarrow> bool" where
  "isAdd c (EvAdd c' n a) = (c' = c)"
| "isAdd c _ = False"

fun isInstrumentation :: "event \<Rightarrow> bool" where
  "isInstrumentation (EvAdd c n a) = True"
| "isInstrumentation (EvLatencyRecord a) = True"
| "isInstrumentation _ = False"

fun isGetMode :: "event \<Rightarrow> bool" where
  "isGetMode (EvGetMode m) = True"
| "isGetMode _ = False"

fun isRead :: "event \<Rightarrow> bool" where
  "isRead (EvReadMsg msgbytes err) = True"
| "isRead _ = False"

fun isUnmarshal :: "event \<Rightarrow> bool" where
  "isUnmarshal (EvUnmarshal msgbytes ok) = True"
| "isUnmarshal _ = False"

fun isTimerReset :: "event \<Rightarrow> bool" where
  "isTimerReset (EvTimerReset d) = True"
| "isTimerReset _ = False"

fun isHandlerCall :: "event \<Rightarrow> bool" where
  "isHandlerCall (EvHandler c p req resp err) = True"
| "isHandlerCall _ = False"

fun isWrite :: "event \<Rightarrow> bool" where
  "isWrite (EvWriteMsg resp err) = True"
| "isWrite _ = False"

fun isDelivered :: "event \<Rightarrow> bool" where
  "isDelivered (EvWriteMsg resp None) = True"
| "isDelivered _ = False"

fun isDispatch :: "event \<Rightarrow> bool" where
  "isDispatch (EvHandlerForMsgType t found) = True"
| "isDispatch (EvHandler c p req resp err) = True"
| "isDispatch (EvWriteMsg resp err) = True"
| "isDispatch _ = False"

fun isLatency :: "event \<Rightarrow> bool" where
  "isLatency (EvLatencyRecord a) = True"
| "isLatency _ = False"

fun isDisposition :: "event \<Rightarrow> bool" where
  "isDisposition EvClose = True"
| "isDisposition EvReset = True"
| "isDisposition _ = False"

fun isEpilogue :: "event \<Rightarrow> bool" where
  "isEpilogue (EvAdd c n a) = (c = ReceivedBytes)"
| "isEpilogue (EvLog msg) = True"
| "isEpilogue EvTimerStop = True"
| "isEpilogue _ = False"

text \<open>
  Four pieces of trace that recur in the statements of the lemmas: a debug line (written
  only when debug logging is on), the call of the request hook (made only when a hook
  is configured), the three increments tagged \<^verbatim>\<open>UNKNOWN\<close>, and everything a pass emits
  from the mode check up to the hook once a frame has been read and decoded.
\<close>

definition logLine :: "IpfsDHT \<Rightarrow> string \<Rightarrow> event list" where
  "logLine dht msg = (if debugEnabled dht then [EvLog msg] else [])"

definition hookCall :: "IpfsDHT \<Rightarrow> Message \<Rightarrow> event list" where
  "hookCall dht req =
     (case onRequestHook dht of None \<Rightarrow> [] | Some _ \<Rightarrow> [EvOnRequestHook (ctx dht) req])"

definition unknownTriple :: "int \<Rightarrow> event list" where
  "unknownTriple n =
     [EvAdd ReceivedMessages 1 ''UNKNOWN'', EvAdd ReceivedMessageErrors 1 ''UNKNOWN'',
      EvAdd ReceivedBytes n ''UNKNOWN'']"

definition receipt :: "IpfsDHT \<Rightarrow> bytes \<Rightarrow> Message \<Rightarrow> event list" where
  "receipt dht msgbytes req =
     [EvGetMode modeServer, EvReadMsg msgbytes None, EvUnmarshal msgbytes True,
      EvReleaseMsg msgbytes, EvTimerReset dhtStreamIdleTimeout,
      EvAdd ReceivedMessages 1 (typeString dht (msgType req)),
      EvAdd ReceivedBytes (int (length msgbytes)) (typeString dht (msgType req))]
     @ hookCall dht req"

subsection \<open>An example node and stream\<close>

text \<open>
  Concrete values on which the definitions are evaluated. The decoder, the type names
  and the handlers here are small stand-ins, used only in the concrete instances:
  a frame is its type tag followed by its key, a tag of 100 or more is malformed;
  tags 4 (\<^verbatim>\<open>FIND_NODE\<close>) and 5 (\<^verbatim>\<open>PING\<close>) answer, tag 1 (\<^verbatim>\<open>GET_VALUE\<close>) answers with an
  empty message, tag 2 (\<^verbatim>\<open>ADD_PROVIDER\<close>) is one-way, the handler of tag 0
  (\<^verbatim>\<open>PUT_VALUE\<close>) fails, and no other tag has a handler.
\<close>

definition exampleUnmarshal :: "bytes \<Rightarrow> error + Message" where
  "exampleUnmarshal msgbytes =
     (case msgbytes of
        [] \<Rightarrow> Inr \<lparr>msgType = 0, msgKey = [], msgBody = []\<rparr>
      | t # key \<Rightarrow>
          if t < 100 then Inr \<lparr>msgType = int t, msgKey = key, msgBody = []\<rparr>
          else Inl (OtherError ''proto: illegal wireType 7''))"

definition exampleTypeString :: "MessageType \<Rightarrow> string" where
  "exampleTypeString t =
     (if t = 0 then ''PUT_VALUE'' else if t = 1 then ''GET_VALUE''
      else if t = 2 then ''ADD_PROVIDER'' else if t = 3 then ''GET_PROVIDERS''
      else if t = 4 then ''FIND_NODE'' else if t = 5 then ''PING'' else ''OTHER'')"

definition exampleHandlers :: "MessageType \<Rightarrow> dhtHandler option" where
  "exampleHandlers t =
     (if t = 0 then Some (\<lambda>c p req. (None, Some (OtherError ''no record'')))
      else if t = 1 then Some (\<lambda>c p req. (Some \<lparr>msgType = 0, msgKey = [], msgBody = []\<rparr>, None))
      else if t = 2 then Some (\<lambda>c p req. (None, None))
      else if t = 4 then Some (\<lambda>c p req. (Some (req\<lparr>msgBody := [1, 2, 3]\<rparr>), None))
      else if t = 5 then Some (\<lambda>c p req. (Some req, None))
      else None)"

definition exampleDHT :: IpfsDHT where
  "exampleDHT =
     \<lparr>ctx = ''ctx'', onRequestHook = None, handlerForMsgType = exampleHandlers,
      Unmarshal = exampleUnmarshal, typeString = exampleTypeString, debugEnabled = False\<rparr>"

definition exampleStream ::
  "opMode list \<Rightarrow> (bytes \<times> error option) list \<Rightarrow> error option list \<Rightarrow> world" where
  "exampleStream ms frames ws =
     \<lparr>remotePeer = ''QmPeer'', modes = ms, incoming = frames, writeResults = ws, trace = []\<rparr>"

section \<open>Properties\<close>

subsection \<open>The calls and the branches of one pass\<close>

declare loop.simps [simp del]

lemma emit_fields [simp]:
  "trace (emit e w) = trace w @ [e]"
  "modes (emit e w) = modes w"
  "incoming (emit e w) = incoming w"
  "writeResults (emit e w) = writeResults w"
  "remotePeer (emit e w) = remotePeer w"
  by (simp_all add: emit_def)

lemma Add_fields [simp]:
  "trace (Add c n a w) = trace w @ [EvAdd c n a]"
  "modes (Add c n a w) = modes w"
  "incoming (Add c n a w) = incoming w"
  "writeResults (Add c n a w) = writeResults w"
  "remotePeer (Add c n a w) = remotePeer w"
  by (simp_all add: Add_def)

lemma logDebug_fields [simp]:
  "trace (logDebug dht msg w) = trace w @ logLine dht msg"
  "modes (logDebug dht msg w) = modes w"
  "incoming (logDebug dht msg w) = incoming w"
  "writeResults (logDebug dht msg w) = writeResults w"
  "remotePeer (logDebug dht msg w) = remotePeer w"
  by (simp_all add: logDebug_def logLine_def)

lemma added_append: "trace w' = trace w @ es \<Longrightarrow> added w w' = es"
  by (simp add: added_def)

text \<open>
  The five ways through \<open>serveRequest\<close>, each with the trace it appends, and the one
  place where it can block.
\<close>

lemma serve_no_handler:
  assumes "handlerForMsgType dht (msgType req) = None"
  shows "\<exists>w'. serveRequest dht n req w = Some (Return False w')
           \<and> trace w' = trace w @
               [EvTimerReset dhtStreamIdleTimeout,
                EvAdd ReceivedMessages 1 (typeString dht (msgType req)),
                EvAdd ReceivedBytes n (typeString dht (msgType req))]
               @ hookCall dht req
               @ [EvHandlerForMsgType (msgType req) False,
                  EvAdd ReceivedMessageErrors 1 (typeString dht (msgType req))]
               @ logLine dht ''can't handle received message''
           \<and> modes w' = modes w \<and> incoming w' = incoming w
           \<and> writeResults w' = writeResults w"
  using assms by (simp add: serveRequest_def Let_def hookCall_def split: option.split)

lemma serve_handler_error:
  assumes "handlerForMsgType dht (msgType req) = Some h"
    and "h (ctx dht) (remotePeer w) req = (r, Some err)"
  shows "\<exists>w'. serveRequest dht n req w = Some (Return False w')
           \<and> trace w' = trace w @
               [EvTimerReset dhtStreamIdleTimeout,
                EvAdd ReceivedMessages 1 (typeString dht (msgType req)),
                EvAdd ReceivedBytes n (typeString dht (msgType req))]
               @ hookCall dht req
               @ [EvHandlerForMsgType (msgType req) True]
               @ logLine dht ''handling message''
               @ [EvHandler (ctx dht) (remotePeer w) req r (Some err),
                  EvAdd ReceivedMessageErrors 1 (typeString dht (msgType req))]
               @ logLine dht ''error handling message''
           \<and> modes w' = modes w \<and> incoming w' = incoming w
           \<and> writeResults w' = writeResults w"
  using assms by (simp add: serveRequest_def Let_def hookCall_def split: option.split)

lemma serve_no_response:
  assumes "handlerForMsgType dht (msgType req) = Some h"
    and "h (ctx dht) (remotePeer w) req = (None, None)"
  shows "\<exists>w'. serveRequest dht n req w = Some (Continue w')
           \<and> trace w' = trace w @
               [EvTimerReset dhtStreamIdleTimeout,
                EvAdd ReceivedMessages 1 (typeString dht (msgType req)),
                EvAdd ReceivedBytes n (typeString dht (msgType req))]
               @ hookCall dht req
               @ [EvHandlerForMsgType (msgType req) True]
               @ logLine dht ''handling message''
               @ [EvHandler (ctx dht) (remotePeer w) req None None]
               @ logLine dht ''handled message''
           \<and> modes w' = modes w \<and> incoming w' = incoming w
           \<and> writeResults w' = writeResults w"
  using assms by (simp add: serveRequest_def Let_def hookCall_def split: option.split)

lemma serve_write_blocked:
  assumes "handlerForMsgType dht (msgType req) = Some h"
    and "h (ctx dht) (remotePeer w) req = (Some resp, None)"
    and "writeResults w = []"
  shows "serveRequest dht n req w = None"
  using assms by (simp add: serveRequest_def Let_def WriteMsg_def split: option.split)

lemma serve_write_error:
  assumes "handlerForMsgType dht (msgType req) = Some h"
    and "h (ctx dht) (remotePeer w) req = (Some resp, None)"
    and "writeResults w = Some err # ws"
  shows "\<exists>w'. serveRequest dht n req w = Some (Return False w')
           \<and> trace w' = trace w @
               [EvTimerReset dhtStreamIdleTimeout,
                EvAdd ReceivedMessages 1 (typeString dht (msgType req)),
                EvAdd ReceivedBytes n (typeString dht (msgType req))]
               @ hookCall dht req
               @ [EvHandlerForMsgType (msgType req) True]
               @ logLine dht ''handling message''
               @ [EvHandler (ctx dht) (remotePeer w) req (Some resp) None]
               @ logLine dht ''handled message''
               @ [EvWriteMsg resp (Some err),
                  EvAdd ReceivedMessageErrors 1 (typeString dht (msgType req))]
               @ logLine dht ''error writing response''
           \<and> modes w' = modes w \<and> incoming w' = incoming w
           \<and> writeResults w' = ws"
  using assms by (simp add: serveRequest_def Let_def WriteMsg_def hookCall_def split: option.split)

lemma serve_write_ok:
  assumes "handlerForMsgType dht (msgType req) = Some h"
    and "h (ctx dht) (remotePeer w) req = (Some resp, None)"
    and "writeResults w = None # ws"
  shows "\<exists>w'. serveRequest dht n req w = Some (Continue w')
           \<and> trace w' = trace w @
               [EvTimerReset dhtStreamIdleTimeout,
                EvAdd ReceivedMessages 1 (typeString dht (msgType req)),
                EvAdd ReceivedBytes n (typeString dht (msgType req))]
               @ hookCall dht req
               @ [EvHandlerForMsgType (msgType req) True]
               @ logLine dht ''handling message''
               @ [EvHandler (ctx dht) (remotePeer w) req (Some resp) None]
               @ logLine dht ''handled message''
               @ [EvWriteMsg resp None]
               @ logLine dht ''responded to message''
               @ [EvLatencyRecord (typeString dht (msgType req))]
           \<and> modes w' = modes w \<and> incoming w' = incoming w
           \<and> writeResults w' = ws"
  using assms by (simp add: serveRequest_def Let_def WriteMsg_def hookCall_def split: option.split)


text \<open>The branches of a whole pass, by what the scripts answer.\<close>

lemma getMode_Cons:
  "modes w = m # ms \<Longrightarrow> getMode w = Some (m, emit (EvGetMode m) (w\<lparr>modes := ms\<rparr>))"
  by (simp add: getMode_def)

lemma ReadMsg_Cons:
  "incoming w = (bs, e) # rs \<Longrightarrow>
   ReadMsg w = Some ((bs, e), emit (EvReadMsg bs e) (w\<lparr>incoming := rs\<rparr>))"
  by (simp add: ReadMsg_def)

lemma iteration_blocked_mode: "modes w = [] \<Longrightarrow> iteration dht w = None"
  by (simp add: iteration_def getMode_def)

lemma iteration_blocked_read:
  "modes w = modeServer # ms \<Longrightarrow> incoming w = [] \<Longrightarrow> iteration dht w = None"
  by (simp add: iteration_def getMode_def ReadMsg_def)

lemma iteration_gate:
  assumes "modes w = m # ms" and "m \<noteq> modeServer"
  shows "\<exists>w'. iteration dht w = Some (Return False w')
           \<and> trace w' = trace w @ [EvGetMode m]
               @ logLine dht ''ignoring incoming dht message while not in server mode''
           \<and> modes w' = ms \<and> incoming w' = incoming w
           \<and> writeResults w' = writeResults w"
  using assms by (simp add: iteration_def getMode_Cons)

lemma iteration_eof:
  assumes "modes w = modeServer # ms" and "incoming w = (msgbytes, Some io_EOF) # rs"
  shows "\<exists>w'. iteration dht w = Some (Return True w')
           \<and> trace w' = trace w @
               [EvGetMode modeServer, EvReadMsg msgbytes (Some io_EOF), EvReleaseMsg msgbytes]
           \<and> modes w' = ms \<and> incoming w' = rs
           \<and> writeResults w' = writeResults w"
  using assms by (simp add: iteration_def getMode_Cons ReadMsg_Cons)

lemma iteration_read_error:
  assumes "modes w = modeServer # ms" and "incoming w = (msgbytes, Some err) # rs"
    and "err \<noteq> io_EOF"
  shows "\<exists>w'. iteration dht w = Some (Return False w')
           \<and> trace w' = trace w @
               [EvGetMode modeServer, EvReadMsg msgbytes (Some err), EvReleaseMsg msgbytes]
               @ (if debugEnabled dht \<and> Error err \<noteq> ''stream reset''
                  then [EvLog ''error reading message''] else [])
               @ (if msgbytes \<noteq> [] then unknownTriple (int (length msgbytes)) else [])
           \<and> modes w' = ms \<and> incoming w' = rs
           \<and> writeResults w' = writeResults w"
  using assms by (simp add: iteration_def getMode_Cons ReadMsg_Cons Let_def unknownTriple_def)

lemma iteration_decode_error:
  assumes "modes w = modeServer # ms" and "incoming w = (msgbytes, None) # rs"
    and "Unmarshal dht msgbytes = Inl err"
  shows "\<exists>w'. iteration dht w = Some (Return False w')
           \<and> trace w' = trace w @
               [EvGetMode modeServer, EvReadMsg msgbytes None, EvUnmarshal msgbytes False,
                EvReleaseMsg msgbytes]
               @ logLine dht ''error unmarshaling message''
               @ unknownTriple (int (length msgbytes))
           \<and> modes w' = ms \<and> incoming w' = rs
           \<and> writeResults w' = writeResults w"
  using assms by (simp add: iteration_def getMode_Cons ReadMsg_Cons Let_def unknownTriple_def)

lemma iteration_decoded:
  assumes "modes w = modeServer # ms" and "incoming w = (msgbytes, None) # rs"
    and "Unmarshal dht msgbytes = Inr req"
  shows "\<exists>w2. iteration dht w = serveRequest dht (int (length msgbytes)) req w2
           \<and> trace w2 = trace w @
               [EvGetMode modeServer, EvReadMsg msgbytes None, EvUnmarshal msgbytes True,
                EvReleaseMsg msgbytes]
           \<and> modes w2 = ms \<and> incoming w2 = rs
           \<and> writeResults w2 = writeResults w \<and> remotePeer w2 = remotePeer w"
proof -
  let ?w2 = "emit (EvReleaseMsg msgbytes) (emit (EvUnmarshal msgbytes True)
               (emit (EvReadMsg msgbytes None)
                 ((emit (EvGetMode modeServer) (w\<lparr>modes := ms\<rparr>))\<lparr>incoming := rs\<rparr>)))"
  have "iteration dht w = serveRequest dht (int (length msgbytes)) req ?w2"
    using assms by (simp add: iteration_def getMode_Cons ReadMsg_Cons Let_def)
  moreover have "trace ?w2 = trace w @
      [EvGetMode modeServer, EvReadMsg msgbytes None, EvUnmarshal msgbytes True,
       EvReleaseMsg msgbytes]"
    by simp
  moreover have "modes ?w2 = ms" "incoming ?w2 = rs"
    "writeResults ?w2 = writeResults w" "remotePeer ?w2 = remotePeer w"
    by simp_all
  ultimately show ?thesis by blast
qed


text \<open>
  Every pass that ends is one of nine branches. The rule gives, for each, what the
  scripts held, how the pass ended, and what it appended to the trace.
\<close>

lemma iteration_cases [consumes 1, case_names gate eof read_error decode_error no_handler
    handler_error no_response write_error write_ok]:
  assumes it: "iteration dht w = Some out"
  obtains
    (gate) m ms w' where "modes w = m # ms" "m \<noteq> modeServer" "out = Return False w'"
      "trace w' = trace w @ [EvGetMode m]
         @ logLine dht ''ignoring incoming dht message while not in server mode''"
      "modes w' = ms" "incoming w' = incoming w" "writeResults w' = writeResults w"
  | (eof) ms msgbytes rs w' where "modes w = modeServer # ms"
      "incoming w = (msgbytes, Some io_EOF) # rs" "out = Return True w'"
      "trace w' = trace w @
         [EvGetMode modeServer, EvReadMsg msgbytes (Some io_EOF), EvReleaseMsg msgbytes]"
      "modes w' = ms" "incoming w' = rs" "writeResults w' = writeResults w"
  | (read_error) ms msgbytes err rs w' where "modes w = modeServer # ms"
      "incoming w = (msgbytes, Some err) # rs" "err \<noteq> io_EOF" "out = Return False w'"
      "trace w' = trace w @
         [EvGetMode modeServer, EvReadMsg msgbytes (Some err), EvReleaseMsg msgbytes]
         @ (if debugEnabled dht \<and> Error err \<noteq> ''stream reset''
            then [EvLog ''error reading message''] else [])
         @ (if msgbytes \<noteq> [] then unknownTriple (int (length msgbytes)) else [])"
      "modes w' = ms" "incoming w' = rs" "writeResults w' = writeResults w"
  | (decode_error) ms msgbytes rs err w' where "modes w = modeServer # ms"
      "incoming w = (msgbytes, None) # rs" "Unmarshal dht msgbytes = Inl err"
      "out = Return False w'"
      "trace w' = trace w @
         [EvGetMode modeServer, EvReadMsg msgbytes None, EvUnmarshal msgbytes False,
          EvReleaseMsg msgbytes]
         @ logLine dht ''error unmarshaling message''
         @ unknownTriple (int (length msgbytes))"
      "modes w' = ms" "incoming w' = rs" "writeResults w' = writeResults w"
  | (no_handler) ms msgbytes rs req w' where "modes w = modeServer # ms"
      "incoming w = (msgbytes, None) # rs" "Unmarshal dht msgbytes = Inr req"
      "handlerForMsgType dht (msgType req) = None" "out = Return False w'"
      "trace w' = trace w @ receipt dht msgbytes req
         @ [EvHandlerForMsgType (msgType req) False,
            EvAdd ReceivedMessageErrors 1 (typeString dht (msgType req))]
         @ logLine dht ''can't handle received message''"
      "modes w' = ms" "incoming w' = rs" "writeResults w' = writeResults w"
  | (handler_error) ms msgbytes rs req h r err w' where "modes w = modeServer # ms"
      "incoming w = (msgbytes, None) # rs" "Unmarshal dht msgbytes = Inr req"
      "handlerForMsgType dht (msgType req) = Some h"
      "h (ctx dht) (remotePeer w) req = (r, Some err)" "out = Return False w'"
      "trace w' = trace w @ receipt dht msgbytes req
         @ [EvHandlerForMsgType (msgType req) True]
         @ logLine dht ''handling message''
         @ [EvHandler (ctx dht) (remotePeer w) req r (Some err),
            EvAdd ReceivedMessageErrors 1 (typeString dht (msgType req))]
         @ logLine dht ''error handling message''"
      "modes w' = ms" "incoming w' = rs" "writeResults w' = writeResults w"
  | (no_response) ms msgbytes rs req h w' where "modes w = modeServer # ms"
      "incoming w = (msgbytes, None) # rs" "Unmarshal dht msgbytes = Inr req"
      "handlerForMsgType dht (msgType req) = Some h"
      "h (ctx dht) (remotePeer w) req = (None, None)" "out = Continue w'"
      "trace w' = trace w @ receipt dht msgbytes req
         @ [EvHandlerForMsgType (msgType req) True]
         @ logLine dht ''handling message''
         @ [EvHandler (ctx dht) (remotePeer w) req None None]
         @ logLine dht ''handled message''"
      "modes w' = ms" "incoming w' = rs" "writeResults w' = writeResults w"
  | (write_error) ms msgbytes rs req h resp err ws w' where "modes w = modeServer # ms"
      "incoming w = (msgbytes, None) # rs" "Unmarshal dht msgbytes = Inr req"
      "handlerForMsgType dht (msgType req) = Some h"
      "h (ctx dht) (remotePeer w) req = (Some resp, None)"
      "writeResults w = Some err # ws" "out = Return False w'"
      "trace w' = trace w @ receipt dht msgbytes req
         @ [EvHandlerForMsgType (msgType req) True]
         @ logLine dht ''handling message''
         @ [EvHandler (ctx dht) (remotePeer w) req (Some resp) None]
         @ logLine dht ''handled message''
         @ [EvWriteMsg resp (Some err),
            EvAdd ReceivedMessageErrors 1 (typeString dht (msgType req))]
         @ logLine dht ''error writing response''"
      "modes w' = ms" "incoming w' = rs" "writeResults w' = ws"
  | (write_ok) ms msgbytes rs req h resp ws w' where "modes w = modeServer # ms"
      "incoming w = (msgbytes, None) # rs" "Unmarshal dht msgbytes = Inr req"
      "handlerForMsgType dht (msgType req) = Some h"
      "h (ctx dht) (remotePeer w) req = (Some resp, None)"
      "writeResults w = None # ws" "out = Continue w'"
      "trace w' = trace w @ receipt dht msgbytes req
         @ [EvHandlerForMsgType (msgType req) True]
         @ logLine dht ''handling message''
         @ [EvHandler (ctx dht) (remotePeer w) req (Some resp) None]
         @ logLine dht ''handled message''
         @ [EvWriteMsg resp None]
         @ logLine dht ''responded to message''
         @ [EvLatencyRecord (typeString dht (msgType req))]"
      "modes w' = ms" "incoming w' = rs" "writeResults w' = ws"
proof (cases "modes w")
  case Nil
  with it show ?thesis by (simp add: iteration_blocked_mode)
next
  case (Cons m ms)
  note modes = this
  show ?thesis
  proof (cases "m = modeServer")
    case False
    with iteration_gate[OF modes, of dht] it gate[OF modes] show ?thesis by auto
  next
    case True
    with modes have modes: "modes w = modeServer # ms" by simp
    show ?thesis
    proof (cases "incoming w")
      case Nil
      with it modes show ?thesis by (simp add: iteration_blocked_read)
    next
      case (Cons r rs)
      obtain msgbytes rerr where r: "r = (msgbytes, rerr)" by (cases r)
      show ?thesis
      proof (cases rerr)
        case (Some err)
        with Cons r have inc: "incoming w = (msgbytes, Some err) # rs" by simp
        show ?thesis
        proof (cases "err = io_EOF")
          case True
          with iteration_eof[OF modes, of msgbytes rs dht] inc it eof[OF modes] show ?thesis
            by auto
        next
          case False
          with iteration_read_error[OF modes inc, of dht] it read_error[OF modes inc]
          show ?thesis by auto
        qed
      next
        case None
        with Cons r have inc: "incoming w = (msgbytes, None) # rs" by simp
        show ?thesis
        proof (cases "Unmarshal dht msgbytes")
          case (Inl err)
          with iteration_decode_error[OF modes inc, of dht] it decode_error[OF modes inc]
          show ?thesis by auto
        next
          case (Inr req)
          note dec = this
          from iteration_decoded[OF modes inc dec] obtain w2 where
            w2: "iteration dht w = serveRequest dht (int (length msgbytes)) req w2"
              "trace w2 = trace w @
                [EvGetMode modeServer, EvReadMsg msgbytes None, EvUnmarshal msgbytes True,
                 EvReleaseMsg msgbytes]"
              "modes w2 = ms" "incoming w2 = rs"
              "writeResults w2 = writeResults w" "remotePeer w2 = remotePeer w"
            by blast
          show ?thesis
          proof (cases "handlerForMsgType dht (msgType req)")
            case None
            from serve_no_handler[OF None, of "int (length msgbytes)" w2] it w2
              no_handler[OF modes inc dec None]
            show ?thesis by (auto simp: receipt_def)
          next
            case (Some h)
            note hd = this
            obtain r e where res: "h (ctx dht) (remotePeer w) req = (r, e)"
              by (cases "h (ctx dht) (remotePeer w) req")
            show ?thesis
            proof (cases e)
              case (Some err)
              with res have res: "h (ctx dht) (remotePeer w) req = (r, Some err)" by simp
              from serve_handler_error[OF hd, of w2 r err "int (length msgbytes)"] res it w2
                handler_error[OF modes inc dec hd res]
              show ?thesis by (auto simp: receipt_def)
            next
              case None
              note e = this
              show ?thesis
              proof (cases r)
                case None
                with res e have res: "h (ctx dht) (remotePeer w) req = (None, None)" by simp
                from serve_no_response[OF hd, of w2 "int (length msgbytes)"] res it w2
                  no_response[OF modes inc dec hd res]
                show ?thesis by (auto simp: receipt_def)
              next
                case (Some resp)
                with res e have res: "h (ctx dht) (remotePeer w) req = (Some resp, None)"
                  by simp
                show ?thesis
                proof (cases "writeResults w")
                  case Nil
                  with serve_write_blocked[OF hd, of w2 resp "int (length msgbytes)"] res it w2
                  show ?thesis by simp
                next
                  case (Cons wr ws)
                  show ?thesis
                  proof (cases wr)
                    case None
                    with Cons have wr: "writeResults w = None # ws" by simp
                    from serve_write_ok[OF hd, of w2 resp ws "int (length msgbytes)"]
                      res it w2 wr write_ok[OF modes inc dec hd res wr]
                    show ?thesis by (auto simp: receipt_def)
                  next
                    case (Some err)
                    with Cons have wr: "writeResults w = Some err # ws" by simp
                    from serve_write_error[OF hd, of w2 resp err ws "int (length msgbytes)"]
                      res it w2 wr write_error[OF modes inc dec hd res wr]
                    show ?thesis by (auto simp: receipt_def)
                  qed
                qed
              qed
            qed
          qed
        qed
      qed
    qed
  qed
qed


subsection \<open>What a pass appends\<close>

text \<open>The predicates on the recurring pieces of trace.\<close>

lemma filter_logLine [simp]:
  "filter isTimerReset (logLine dht msg) = []"
  "filter isDispatch (logLine dht msg) = []"
  "filter isInstrumentation (logLine dht msg) = []"
  "filter (isAdd c) (logLine dht msg) = []"
  "filter isWrite (logLine dht msg) = []"
  "filter isDelivered (logLine dht msg) = []"
  "filter isHandlerCall (logLine dht msg) = []"
  "filter isRead (logLine dht msg) = []"
  "filter isLatency (logLine dht msg) = []"
  "filter isGetMode (logLine dht msg) = []"
  "filter isDisposition (logLine dht msg) = []"
  by (simp_all add: logLine_def)

lemma filter_hookCall [simp]:
  "filter isTimerReset (hookCall dht req) = []"
  "filter isDispatch (hookCall dht req) = []"
  "filter isInstrumentation (hookCall dht req) = []"
  "filter (isAdd c) (hookCall dht req) = []"
  "filter isWrite (hookCall dht req) = []"
  "filter isDelivered (hookCall dht req) = []"
  "filter isHandlerCall (hookCall dht req) = []"
  "filter isRead (hookCall dht req) = []"
  "filter isLatency (hookCall dht req) = []"
  "filter isGetMode (hookCall dht req) = []"
  "filter isDisposition (hookCall dht req) = []"
  by (simp_all add: hookCall_def split: option.split)

lemma filter_unknownTriple [simp]:
  "filter isDisposition (unknownTriple n) = []"
  "filter isGetMode (unknownTriple n) = []"
  by (simp_all add: unknownTriple_def)

lemma filter_receipt [simp]:
  "filter isDisposition (receipt dht msgbytes req) = []"
  "filter (isAdd ReceivedMessageErrors) (receipt dht msgbytes req) = []"
  "filter isGetMode (receipt dht msgbytes req) = [EvGetMode modeServer]"
  by (simp_all add: receipt_def)

lemma logLine_epilogue: "e \<in> set (logLine dht msg) \<Longrightarrow> isEpilogue e"
  by (auto simp: logLine_def split: if_splits)

lemma logLine_no_read [simp]: "EvReadMsg msgbytes err \<notin> set (logLine dht msg)"
  by (simp add: logLine_def)

lemma hookCall_no_read [simp]: "EvReadMsg msgbytes err \<notin> set (hookCall dht req)"
  by (simp add: hookCall_def split: option.split)

text \<open>
  A pass that has decoded a frame has an outcome unless it is blocked in the write of a
  response.
\<close>

lemma iteration_blocked_write:
  assumes "modes w = modeServer # ms" and "incoming w = (msgbytes, None) # rs"
    and "Unmarshal dht msgbytes = Inr req"
    and "handlerForMsgType dht (msgType req) = Some h"
    and "h (ctx dht) (remotePeer w) req = (Some resp, None)"
    and "writeResults w = []"
  shows "iteration dht w = None"
proof -
  from iteration_decoded[OF assms(1-3)] obtain w2 where
    w2: "iteration dht w = serveRequest dht (int (length msgbytes)) req w2"
      "writeResults w2 = writeResults w" "remotePeer w2 = remotePeer w"
    by blast
  with serve_write_blocked[OF assms(4), of w2 resp "int (length msgbytes)"] assms(5,6)
  show ?thesis by simp
qed

lemma iteration_decoded_outcome:
  assumes "modes w = modeServer # ms" and "incoming w = (msgbytes, None) # rs"
    and "Unmarshal dht msgbytes = Inr req"
    and "iteration dht w = None"
  shows "writeResults w = [] \<and>
         (\<exists>h resp. handlerForMsgType dht (msgType req) = Some h
            \<and> h (ctx dht) (remotePeer w) req = (Some resp, None))"
proof -
  from iteration_decoded[OF assms(1-3)] obtain w2 where
    w2: "iteration dht w = serveRequest dht (int (length msgbytes)) req w2"
      "writeResults w2 = writeResults w" "remotePeer w2 = remotePeer w"
    by blast
  with assms(4) have "serveRequest dht (int (length msgbytes)) req w2 = None" by simp
  then show ?thesis using w2(2,3)
    by (auto simp: serveRequest_def Let_def WriteMsg_def prod_eq_iff
          split: option.splits list.splits prod.splits)
qed

text \<open>
  With an answer left in each script a pass is never blocked: it returns, or it has read
  a frame without error and continues with one answer less in the scripts of modes and
  frames, and at most one less in the script of write results.
\<close>

lemma iteration_progress:
  assumes "modes w = m # ms" and "incoming w = r # rs" and "writeResults w = wr # ws"
  shows "(\<exists>b w'. iteration dht w = Some (Return b w'))
       \<or> (snd r = None \<and>
           (\<exists>w'. iteration dht w = Some (Continue w') \<and> modes w' = ms \<and> incoming w' = rs
              \<and> (writeResults w' = wr # ws \<or> writeResults w' = ws)))"
  using assms
  by (cases r)
     (auto simp: iteration_def serveRequest_def getMode_def ReadMsg_def WriteMsg_def Let_def
        split: option.splits sum.splits prod.splits)

text \<open>
  A pass that continues increments no error counter and neither closes nor resets the
  stream. A pass that returns starts with its only mode check.
\<close>

lemma iteration_Continue_trace:
  assumes "iteration dht w = Some (Continue w')"
  shows "\<exists>es. trace w' = trace w @ es
           \<and> filter (isAdd ReceivedMessageErrors) es = []
           \<and> filter isDisposition es = []"
  using assms by (cases rule: iteration_cases) auto

lemma iteration_Return_trace:
  assumes "iteration dht w = Some (Return b w')"
  shows "\<exists>m fin. trace w' = trace w @ EvGetMode m # fin
           \<and> filter isGetMode fin = [] \<and> filter isDisposition fin = []"
  using assms by (cases rule: iteration_cases) (auto simp: receipt_def)

text \<open>What the last pass of a session does to the error counter.\<close>

lemma final_pass_errors:
  assumes "iteration dht w = Some (Return b w')"
  shows "\<exists>m fin. trace w' = trace w @ EvGetMode m # fin
           \<and> filter isGetMode fin = []
           \<and> length (filter (isAdd ReceivedMessageErrors) fin) \<le> 1
           \<and> (filter (isAdd ReceivedMessageErrors) fin \<noteq> [] \<longrightarrow>
                \<not> b \<and> (\<exists>fin1 a fin2. fin = fin1 @ EvAdd ReceivedMessageErrors 1 a # fin2
                         \<and> (\<forall>e\<in>set fin2. isEpilogue e)))
           \<and> (m \<noteq> modeServer \<longrightarrow> filter (isAdd ReceivedMessageErrors) fin = [])
           \<and> (\<forall>msgbytes. EvReadMsg msgbytes (Some io_EOF) \<in> set fin \<longrightarrow>
                filter (isAdd ReceivedMessageErrors) fin = [])
           \<and> (\<forall>err. EvReadMsg [] (Some err) \<in> set fin \<longrightarrow>
                filter (isAdd ReceivedMessageErrors) fin = [])"
  using assms
proof (cases rule: iteration_cases)
  case (gate m ms w')
  then show ?thesis by auto
next
  case (eof ms msgbytes rs w')
  then show ?thesis by auto
next
  case (read_error ms msgbytes err rs w1)
  let ?log = "if debugEnabled dht \<and> Error err \<noteq> ''stream reset''
              then [EvLog ''error reading message''] else []"
  let ?fin = "[EvReadMsg msgbytes (Some err), EvReleaseMsg msgbytes] @ ?log
              @ (if msgbytes \<noteq> [] then unknownTriple (int (length msgbytes)) else [])"
  from read_error have t: "trace w' = trace w @ EvGetMode modeServer # ?fin" and b: "\<not> b"
    by simp_all
  have split: "\<exists>fin1 a fin2. ?fin = fin1 @ EvAdd ReceivedMessageErrors 1 a # fin2
                 \<and> (\<forall>e\<in>set fin2. isEpilogue e)" if "msgbytes \<noteq> []"
  proof -
    have "?fin = ([EvReadMsg msgbytes (Some err), EvReleaseMsg msgbytes] @ ?log
                   @ [EvAdd ReceivedMessages 1 ''UNKNOWN''])
                 @ EvAdd ReceivedMessageErrors 1 ''UNKNOWN''
                 # [EvAdd ReceivedBytes (int (length msgbytes)) ''UNKNOWN'']"
      using that by (simp add: unknownTriple_def)
    moreover have "\<forall>e\<in>set [EvAdd ReceivedBytes (int (length msgbytes)) ''UNKNOWN'']. isEpilogue e"
      by simp
    ultimately show ?thesis by blast
  qed
  have "filter isGetMode ?fin = []" by simp
  moreover have "length (filter (isAdd ReceivedMessageErrors) ?fin) \<le> 1"
    by (simp add: unknownTriple_def)
  moreover have "filter (isAdd ReceivedMessageErrors) ?fin \<noteq> [] \<longrightarrow>
      \<not> b \<and> (\<exists>fin1 a fin2. ?fin = fin1 @ EvAdd ReceivedMessageErrors 1 a # fin2
                 \<and> (\<forall>e\<in>set fin2. isEpilogue e))"
    using b split by (cases "msgbytes = []") simp_all
  moreover have "\<forall>bs. EvReadMsg bs (Some io_EOF) \<in> set ?fin \<longrightarrow>
      filter (isAdd ReceivedMessageErrors) ?fin = []"
    using read_error(3) by (auto simp: unknownTriple_def)
  moreover have "\<forall>e. EvReadMsg [] (Some e) \<in> set ?fin \<longrightarrow>
      filter (isAdd ReceivedMessageErrors) ?fin = []"
    by (auto simp: unknownTriple_def)
  ultimately show ?thesis using t by blast
next
  case (decode_error ms msgbytes rs err w1)
  let ?fin = "[EvReadMsg msgbytes None, EvUnmarshal msgbytes False, EvReleaseMsg msgbytes]
              @ logLine dht ''error unmarshaling message''
              @ unknownTriple (int (length msgbytes))"
  from decode_error have t: "trace w' = trace w @ EvGetMode modeServer # ?fin" and b: "\<not> b"
    by simp_all
  have "?fin = ([EvReadMsg msgbytes None, EvUnmarshal msgbytes False, EvReleaseMsg msgbytes]
                 @ logLine dht ''error unmarshaling message''
                 @ [EvAdd ReceivedMessages 1 ''UNKNOWN''])
               @ EvAdd ReceivedMessageErrors 1 ''UNKNOWN''
               # [EvAdd ReceivedBytes (int (length msgbytes)) ''UNKNOWN'']"
    by (simp add: unknownTriple_def)
  moreover have "\<forall>e\<in>set [EvAdd ReceivedBytes (int (length msgbytes)) ''UNKNOWN'']. isEpilogue e"
    by simp
  ultimately have split: "\<exists>fin1 a fin2. ?fin = fin1 @ EvAdd ReceivedMessageErrors 1 a # fin2
                 \<and> (\<forall>e\<in>set fin2. isEpilogue e)"
    by blast
  have "filter isGetMode ?fin = []" by simp
  moreover have "length (filter (isAdd ReceivedMessageErrors) ?fin) \<le> 1"
    by (simp add: unknownTriple_def)
  moreover have "\<forall>bs. EvReadMsg bs (Some io_EOF) \<in> set ?fin \<longrightarrow>
      filter (isAdd ReceivedMessageErrors) ?fin = []"
    by (auto simp: unknownTriple_def)
  moreover have "\<forall>e. EvReadMsg [] (Some e) \<in> set ?fin \<longrightarrow>
      filter (isAdd ReceivedMessageErrors) ?fin = []"
    by (auto simp: unknownTriple_def)
  ultimately show ?thesis using t b split by blast
next
  case (no_handler ms msgbytes rs req w1)
  let ?pre = "tl (receipt dht msgbytes req) @ [EvHandlerForMsgType (msgType req) False]"
  let ?a = "typeString dht (msgType req)"
  let ?post = "logLine dht ''can't handle received message''"
  let ?fin = "?pre @ EvAdd ReceivedMessageErrors 1 ?a # ?post"
  from no_handler have t: "trace w' = trace w @ EvGetMode modeServer # ?fin" and b: "\<not> b"
    by (simp_all add: receipt_def)
  have split: "\<exists>fin1 a fin2. ?fin = fin1 @ EvAdd ReceivedMessageErrors 1 a # fin2
                 \<and> (\<forall>e\<in>set fin2. isEpilogue e)"
    using logLine_epilogue by blast
  have "filter isGetMode ?fin = []" by (simp add: receipt_def)
  moreover have "length (filter (isAdd ReceivedMessageErrors) ?fin) \<le> 1"
    by (simp add: receipt_def)
  moreover have "\<forall>bs e. EvReadMsg bs (Some e) \<notin> set ?fin"
    by (simp add: receipt_def)
  ultimately show ?thesis using t b split by blast
next
  case (handler_error ms msgbytes rs req h r err w1)
  let ?pre = "tl (receipt dht msgbytes req) @ [EvHandlerForMsgType (msgType req) True]
              @ logLine dht ''handling message''
              @ [EvHandler (ctx dht) (remotePeer w) req r (Some err)]"
  let ?a = "typeString dht (msgType req)"
  let ?post = "logLine dht ''error handling message''"
  let ?fin = "?pre @ EvAdd ReceivedMessageErrors 1 ?a # ?post"
  from handler_error have t: "trace w' = trace w @ EvGetMode modeServer # ?fin" and b: "\<not> b"
    by (simp_all add: receipt_def)
  have split: "\<exists>fin1 a fin2. ?fin = fin1 @ EvAdd ReceivedMessageErrors 1 a # fin2
                 \<and> (\<forall>e\<in>set fin2. isEpilogue e)"
    using logLine_epilogue by blast
  have "filter isGetMode ?fin = []" by (simp add: receipt_def)
  moreover have "length (filter (isAdd ReceivedMessageErrors) ?fin) \<le> 1"
    by (simp add: receipt_def)
  moreover have "\<forall>bs e. EvReadMsg bs (Some e) \<notin> set ?fin"
    by (simp add: receipt_def)
  ultimately show ?thesis using t b split by blast
next
  case (write_error ms msgbytes rs req h resp err ws w1)
  let ?pre = "tl (receipt dht msgbytes req) @ [EvHandlerForMsgType (msgType req) True]
              @ logLine dht ''handling message''
              @ [EvHandler (ctx dht) (remotePeer w) req (Some resp) None]
              @ logLine dht ''handled message''
              @ [EvWriteMsg resp (Some err)]"
  let ?a = "typeString dht (msgType req)"
  let ?post = "logLine dht ''error writing response''"
  let ?fin = "?pre @ EvAdd ReceivedMessageErrors 1 ?a # ?post"
  from write_error have t: "trace w' = trace w @ EvGetMode modeServer # ?fin" and b: "\<not> b"
    by (simp_all add: receipt_def)
  have split: "\<exists>fin1 a fin2. ?fin = fin1 @ EvAdd ReceivedMessageErrors 1 a # fin2
                 \<and> (\<forall>e\<in>set fin2. isEpilogue e)"
    using logLine_epilogue by blast
  have "filter isGetMode ?fin = []" by (simp add: receipt_def)
  moreover have "length (filter (isAdd ReceivedMessageErrors) ?fin) \<le> 1"
    by (simp add: receipt_def)
  moreover have "\<forall>bs e. EvReadMsg bs (Some e) \<notin> set ?fin"
    by (simp add: receipt_def)
  ultimately show ?thesis using t b split by blast
qed simp_all

subsection \<open>The loop\<close>

text \<open>
  The loop unfolds by one pass; a session is some passes that continue followed by one
  pass that returns. \<open>loop_final_pass\<close> finds that last pass: the state \<open>wn\<close> at its
  head is reached by continuing passes only, and those increment no error counter and
  neither close nor reset the stream.
\<close>

lemma loop_Return: "iteration dht w = Some (Return b w') \<Longrightarrow> loop dht w = Some (b, w')"
  by (simp add: loop.simps)

lemma loop_Continue: "iteration dht w = Some (Continue w') \<Longrightarrow> loop dht w = loop dht w'"
  by (subst loop.simps) simp

lemma loop_blocked: "iteration dht w = None \<Longrightarrow> loop dht w = None"
  by (simp add: loop.simps)

lemma loop_final_pass:
  "loop dht w = Some (b, w') \<Longrightarrow>
   \<exists>pre wn. trace wn = trace w @ pre
     \<and> filter (isAdd ReceivedMessageErrors) pre = []
     \<and> filter isDisposition pre = []
     \<and> iteration dht wn = Some (Return b w')"
proof (induction dht w rule: loop.induct)
  case (1 dht w)
  show ?case
  proof (cases "iteration dht w")
    case None
    with "1.prems" show ?thesis by (simp add: loop_blocked)
  next
    case (Some out)
    show ?thesis
    proof (cases out)
      case (Return b' w'')
      with Some "1.prems" have "iteration dht w = Some (Return b w')"
        by (simp add: loop_Return)
      then have "trace w = trace w @ [] \<and> filter (isAdd ReceivedMessageErrors) [] = []
          \<and> filter isDisposition [] = [] \<and> iteration dht w = Some (Return b w')"
        by simp
      then show ?thesis by blast
    next
      case (Continue w1)
      with Some have it: "iteration dht w = Some (Continue w1)" by simp
      with "1.prems" have "loop dht w1 = Some (b, w')" by (simp add: loop_Continue)
      from "1.IH"[OF Some Continue this] obtain pre wn where
        pre: "trace wn = trace w1 @ pre" "filter (isAdd ReceivedMessageErrors) pre = []"
          "filter isDisposition pre = []" "iteration dht wn = Some (Return b w')"
        by blast
      from iteration_Continue_trace[OF it] obtain es where
        es: "trace w1 = trace w @ es" "filter (isAdd ReceivedMessageErrors) es = []"
          "filter isDisposition es = []"
        by blast
      from pre es have "trace wn = trace w @ (es @ pre)
          \<and> filter (isAdd ReceivedMessageErrors) (es @ pre) = []
          \<and> filter isDisposition (es @ pre) = [] \<and> iteration dht wn = Some (Return b w')"
        by simp
      then show ?thesis by blast
    qed
  qed
qed

lemma handleNewMessage_trace:
  assumes "handleNewMessage dht w = Some (b, w')"
  shows "\<exists>es. trace w' = trace w @ es \<and> filter isDisposition es = []"
proof -
  from assms obtain w1 where
    l: "loop dht (emit (EvTimerAfterFunc dhtStreamIdleTimeout) w) = Some (b, w1)"
    and w': "w' = emit EvTimerStop w1"
    by (auto simp: handleNewMessage_def split: option.splits)
  from loop_final_pass[OF l] obtain pre wn where
    pre: "trace wn = trace (emit (EvTimerAfterFunc dhtStreamIdleTimeout) w) @ pre"
      "filter isDisposition pre = []" "iteration dht wn = Some (Return b w1)"
    by blast
  from iteration_Return_trace[OF pre(3)] obtain m fin where
    fin: "trace w1 = trace wn @ EvGetMode m # fin" "filter isDisposition fin = []"
    by blast
  from w' pre fin have "trace w' = trace w @
      (EvTimerAfterFunc dhtStreamIdleTimeout # pre @ EvGetMode m # fin @ [EvTimerStop])
    \<and> filter isDisposition
      (EvTimerAfterFunc dhtStreamIdleTimeout # pre @ EvGetMode m # fin @ [EvTimerStop]) = []"
    by simp
  then show ?thesis by blast
qed

text \<open>
  A session returns whenever its stream comes to an end: if some read still to come
  fails (with \<^verbatim>\<open>io.EOF\<close> or any other error) and the scripts of modes and of write
  results are at least as long as the script of reads, the loop is never blocked and the
  method returns.
\<close>

lemma loop_returns:
  assumes "\<exists>r\<in>set (incoming w). snd r \<noteq> None"
    and "length (incoming w) \<le> length (modes w)"
    and "length (incoming w) \<le> length (writeResults w)"
  shows "\<exists>b w'. loop dht w = Some (b, w')"
  using assms
proof (induction "incoming w" arbitrary: w)
  case Nil
  then show ?case by simp
next
  case (Cons r rs)
  from Cons.hyps(2)[symmetric] Cons.prems(2,3) obtain m ms wr ws where
    scripts: "modes w = m # ms" "incoming w = r # rs" "writeResults w = wr # ws"
    by (cases "modes w"; cases "writeResults w") auto
  from iteration_progress[OF scripts, where dht = dht] consider
      (ret) b w' where "iteration dht w = Some (Return b w')"
    | (cont) w' where "snd r = None" "iteration dht w = Some (Continue w')"
        "modes w' = ms" "incoming w' = rs"
        "writeResults w' = wr # ws \<or> writeResults w' = ws"
    by blast
  then show ?case
  proof cases
    case ret
    then show ?thesis by (simp add: loop_Return)
  next
    case cont
    from Cons.prems(1) scripts(2) cont(1,4) have "\<exists>r\<in>set (incoming w'). snd r \<noteq> None"
      by auto
    moreover from Cons.prems(2,3) scripts cont(3,4,5) have
      "length (incoming w') \<le> length (modes w')"
      "length (incoming w') \<le> length (writeResults w')"
      by auto
    ultimately have "\<exists>b w''. loop dht w' = Some (b, w'')"
      using Cons.hyps(1)[of w'] cont(4) by simp
    with cont(2) show ?thesis by (simp add: loop_Continue)
  qed
qed

lemma handleNewStream_returns:
  assumes "\<exists>r\<in>set (incoming w). snd r \<noteq> None"
    and "length (incoming w) \<le> length (modes w)"
    and "length (incoming w) \<le> length (writeResults w)"
  shows "\<exists>w'. handleNewStream dht w = Some w'"
proof -
  let ?w = "emit (EvTimerAfterFunc dhtStreamIdleTimeout) w"
  from assms have "\<exists>b w'. loop dht ?w = Some (b, w')"
    by (intro loop_returns) simp_all
  then show ?thesis
    by (auto simp: handleNewStream_def handleNewMessage_def)
qed

text \<open>
  After a pass that continues the loop runs the next pass on the state that pass left.
  With an answer left in each script the next pass has an outcome; if it returns, the
  loop returns what it returns, and if it continues, the loop goes on from there. When
  the node is still in server mode the next pass reads the next frame of the stream, and
  no other. When the next mode answer is not \<open>modeServer\<close> the loop returns \<open>False\<close>
  without reading; when the next read fails the loop returns right after that read,
  \<open>True\<close> exactly for \<^verbatim>\<open>io.EOF\<close>.
\<close>

lemma loop_goes_on:
  assumes it: "iteration dht w = Some (Continue w')"
  shows "(\<forall>out2. iteration dht w' = Some out2 \<longrightarrow>
            (\<forall>ms' r rs'. modes w' = modeServer # ms' \<and> incoming w' = r # rs' \<longrightarrow>
               filter isRead (added w' (worldOf out2)) = [EvReadMsg (fst r) (snd r)]
               \<and> incoming (worldOf out2) = rs')
          \<and> (\<forall>b wf. out2 = Return b wf \<longrightarrow> loop dht w = Some (b, wf))
          \<and> (\<forall>w2. out2 = Continue w2 \<longrightarrow> loop dht w = loop dht w2))
       \<and> (modes w' \<noteq> [] \<and> incoming w' \<noteq> [] \<and> writeResults w' \<noteq> [] \<longrightarrow>
            (\<exists>out2. iteration dht w' = Some out2))
       \<and> (\<forall>m ms'. modes w' = m # ms' \<and> m \<noteq> modeServer \<longrightarrow>
            (\<exists>wf. loop dht w = Some (False, wf) \<and> incoming wf = incoming w'
               \<and> filter isRead (added w' wf) = []))
       \<and> (\<forall>ms' bs2 err rs'. modes w' = modeServer # ms' \<and> incoming w' = (bs2, Some err) # rs' \<longrightarrow>
            (\<exists>wf. loop dht w = Some (err = io_EOF, wf) \<and> incoming wf = rs'
               \<and> filter isRead (added w' wf) = [EvReadMsg bs2 (Some err)]))"
proof (intro conjI allI impI)
  fix out2 ms' r rs'
  assume it2: "iteration dht w' = Some out2"
    and s: "modes w' = modeServer # ms' \<and> incoming w' = r # rs'"
  from it2 s show "filter isRead (added w' (worldOf out2)) = [EvReadMsg (fst r) (snd r)]"
    by (cases rule: iteration_cases)
       (auto simp: added_append receipt_def unknownTriple_def)
  from it2 s show "incoming (worldOf out2) = rs'"
    by (cases rule: iteration_cases) auto
next
  fix out2 b wf
  assume "iteration dht w' = Some out2" "out2 = Return b wf"
  then show "loop dht w = Some (b, wf)"
    using it by (simp add: loop_Continue loop_Return)
next
  fix out2 w2
  assume "iteration dht w' = Some out2" "out2 = Continue w2"
  then show "loop dht w = loop dht w2"
    using it by (simp add: loop_Continue)
next
  assume "modes w' \<noteq> [] \<and> incoming w' \<noteq> [] \<and> writeResults w' \<noteq> []"
  then obtain m ms r rs wr ws where
    "modes w' = m # ms" "incoming w' = r # rs" "writeResults w' = wr # ws"
    by (cases "modes w'"; cases "incoming w'"; cases "writeResults w'") auto
  from iteration_progress[OF this, where dht = dht]
  show "\<exists>out2. iteration dht w' = Some out2" by blast
next
  fix m ms'
  assume "modes w' = m # ms' \<and> m \<noteq> modeServer"
  then have m: "modes w' = m # ms'" "m \<noteq> modeServer" by simp_all
  from iteration_gate[OF m, of dht] obtain wf where
    "iteration dht w' = Some (Return False wf)"
    "trace wf = trace w' @ [EvGetMode m]
       @ logLine dht ''ignoring incoming dht message while not in server mode''"
    "incoming wf = incoming w'"
    by blast
  then have "loop dht w = Some (False, wf) \<and> incoming wf = incoming w'
               \<and> filter isRead (added w' wf) = []"
    using loop_Continue[OF it] by (simp add: loop_Return added_append)
  then show "\<exists>wf. loop dht w = Some (False, wf) \<and> incoming wf = incoming w'
               \<and> filter isRead (added w' wf) = []"
    by blast
next
  fix ms' bs2 err rs'
  assume "modes w' = modeServer # ms' \<and> incoming w' = (bs2, Some err) # rs'"
  then have s: "modes w' = modeServer # ms'" "incoming w' = (bs2, Some err) # rs'"
    by simp_all
  show "\<exists>wf. loop dht w = Some (err = io_EOF, wf) \<and> incoming wf = rs'
               \<and> filter isRead (added w' wf) = [EvReadMsg bs2 (Some err)]"
  proof (cases "err = io_EOF")
    case True
    from iteration_eof[OF s(1), of bs2 rs' dht] s(2) True obtain wf where
      "iteration dht w' = Some (Return True wf)"
      "trace wf = trace w' @
         [EvGetMode modeServer, EvReadMsg bs2 (Some io_EOF), EvReleaseMsg bs2]"
      "incoming wf = rs'"
      by auto
    then have "loop dht w = Some (err = io_EOF, wf) \<and> incoming wf = rs'
               \<and> filter isRead (added w' wf) = [EvReadMsg bs2 (Some err)]"
      using loop_Continue[OF it] True by (simp add: loop_Return added_append)
    then show ?thesis by blast
  next
    case False
    from iteration_read_error[OF s False, of dht] obtain wf where
      "iteration dht w' = Some (Return False wf)"
      "trace wf = trace w' @
         [EvGetMode modeServer, EvReadMsg bs2 (Some err), EvReleaseMsg bs2]
         @ (if debugEnabled dht \<and> Error err \<noteq> ''stream reset''
            then [EvLog ''error reading message''] else [])
         @ (if bs2 \<noteq> [] then unknownTriple (int (length bs2)) else [])"
      "incoming wf = rs'"
      by blast
    then have "loop dht w = Some (err = io_EOF, wf) \<and> incoming wf = rs'
               \<and> filter isRead (added w' wf) = [EvReadMsg bs2 (Some err)]"
      using loop_Continue[OF it] False
      by (simp add: loop_Return added_append unknownTriple_def)
    then show ?thesis by blast
  qed
qed

text \<open>The definitions a concrete run unfolds.\<close>

lemmas run_defs = handleNewStream_def handleNewMessage_def loop.simps iteration_def
  serveRequest_def getMode_def ReadMsg_def WriteMsg_def emit_def Add_def logDebug_def Let_def

lemmas example_defs = exampleDHT_def exampleStream_def exampleUnmarshal_def
  exampleHandlers_def exampleTypeString_def

subsection \<open>Closing or resetting the stream\<close>

text \<open>
  Claim C1. \<^verbatim>\<open>handleNewStream\<close> returns exactly when \<^verbatim>\<open>handleNewMessage\<close> does. When
  the loop reports \<open>True\<close> the calls made on the stream's disposition during the
  whole run are exactly one \<^verbatim>\<open>Close\<close>; when it reports \<open>False\<close> they are exactly one
  \<^verbatim>\<open>Reset\<close>. The call is the last thing the method does. The method does return
  whenever the stream comes to an end: when some read still to come fails and the
  scripts of modes and of write results are at least as long as the script of reads.
  (The reset that the idle timer performs from its own goroutine is not a call of this
  method; the loop sees it as a failed read.)
\<close>

theorem stream_disposition:
  "(\<forall>b w1. handleNewMessage dht w = Some (b, w1) \<longrightarrow>
      (\<exists>w2. handleNewStream dht w = Some w2
         \<and> trace w2 = trace w1 @ [if b then EvClose else EvReset]
         \<and> filter isDisposition (added w w2) = [if b then EvClose else EvReset]))
   \<and> (handleNewMessage dht w = None \<longrightarrow> handleNewStream dht w = None)
   \<and> ((\<exists>r\<in>set (incoming w). snd r \<noteq> None)
        \<and> length (incoming w) \<le> length (modes w)
        \<and> length (incoming w) \<le> length (writeResults w) \<longrightarrow>
      (\<exists>w2. handleNewStream dht w = Some w2))"
proof (intro conjI allI impI)
  fix b w1
  assume h: "handleNewMessage dht w = Some (b, w1)"
  from handleNewMessage_trace[OF h] obtain es where
    es: "trace w1 = trace w @ es" "filter isDisposition es = []"
    by blast
  let ?w2 = "emit (if b then EvClose else EvReset) w1"
  from h have "handleNewStream dht w = Some ?w2"
    by (simp add: handleNewStream_def)
  moreover have "trace ?w2 = trace w1 @ [if b then EvClose else EvReset]"
    by simp
  moreover from es have "trace ?w2 = trace w @ (es @ [if b then EvClose else EvReset])"
    by simp
  then have "filter isDisposition (added w ?w2) = [if b then EvClose else EvReset]"
    using es(2) by (simp add: added_append)
  ultimately show "\<exists>w2. handleNewStream dht w = Some w2
         \<and> trace w2 = trace w1 @ [if b then EvClose else EvReset]
         \<and> filter isDisposition (added w w2) = [if b then EvClose else EvReset]"
    by blast
next
  assume "handleNewMessage dht w = None"
  then show "handleNewStream dht w = None" by (simp add: handleNewStream_def)
next
  assume "(\<exists>r\<in>set (incoming w). snd r \<noteq> None)
        \<and> length (incoming w) \<le> length (modes w)
        \<and> length (incoming w) \<le> length (writeResults w)"
  then show "\<exists>w2. handleNewStream dht w = Some w2"
    by (intro handleNewStream_returns) simp_all
qed

text \<open>
  Two sessions. In the first a \<^verbatim>\<open>PING\<close> and a \<^verbatim>\<open>FIND_NODE\<close> are answered and the
  peer then ends the stream: the stream is closed. In the second a \<^verbatim>\<open>PING\<close> is
  answered and the next frame has a type without handler: the stream is reset.
\<close>

theorem stream_disposition_witness:
  "(\<exists>w1 w2.
      handleNewMessage exampleDHT (exampleStream [modeServer, modeServer, modeServer]
         [([5], None), ([4, 9], None), ([], Some io_EOF)] [None, None, None]) = Some (True, w1)
      \<and> handleNewStream exampleDHT (exampleStream [modeServer, modeServer, modeServer]
         [([5], None), ([4, 9], None), ([], Some io_EOF)] [None, None, None]) = Some w2
      \<and> filter isDisposition (added (exampleStream [modeServer, modeServer, modeServer]
         [([5], None), ([4, 9], None), ([], Some io_EOF)] [None, None, None]) w2) = [EvClose])
   \<and> (\<exists>w1 w2.
      handleNewMessage exampleDHT (exampleStream [modeServer, modeServer]
         [([5], None), ([7], None)] [None]) = Some (False, w1)
      \<and> handleNewStream exampleDHT (exampleStream [modeServer, modeServer]
         [([5], None), ([7], None)] [None]) = Some w2
      \<and> filter isDisposition (added (exampleStream [modeServer, modeServer]
         [([5], None), ([7], None)] [None]) w2) = [EvReset])
   \<and> (\<exists>r\<in>set (incoming (exampleStream [modeServer, modeServer, modeServer]
         [([5], None), ([4, 9], None), ([], Some io_EOF)] [None, None, None])). snd r \<noteq> None)
   \<and> length (incoming (exampleStream [modeServer, modeServer, modeServer]
         [([5], None), ([4, 9], None), ([], Some io_EOF)] [None, None, None]))
       \<le> length (modes (exampleStream [modeServer, modeServer, modeServer]
         [([5], None), ([4, 9], None), ([], Some io_EOF)] [None, None, None]))
   \<and> length (incoming (exampleStream [modeServer, modeServer, modeServer]
         [([5], None), ([4, 9], None), ([], Some io_EOF)] [None, None, None]))
       \<le> length (writeResults (exampleStream [modeServer, modeServer, modeServer]
         [([5], None), ([4, 9], None), ([], Some io_EOF)] [None, None, None]))
   \<and> (\<exists>w2. handleNewStream exampleDHT (exampleStream [modeServer, modeServer, modeServer]
         [([5], None), ([4, 9], None), ([], Some io_EOF)] [None, None, None]) = Some w2)"
proof -
  let ?A = "exampleStream [modeServer, modeServer, modeServer]
         [([5], None), ([4, 9], None), ([], Some io_EOF)] [None, None, None]"
  let ?B = "exampleStream [modeServer, modeServer] [([5], None), ([7], None)] [None]"
  have "\<exists>w1. handleNewMessage exampleDHT ?A = Some (True, w1)"
    by (simp add: run_defs example_defs)
  then obtain a1 where a1: "handleNewMessage exampleDHT ?A = Some (True, a1)" by blast
  have "\<exists>w1. handleNewMessage exampleDHT ?B = Some (False, w1)"
    by (simp add: run_defs example_defs)
  then obtain b1 where b1: "handleNewMessage exampleDHT ?B = Some (False, b1)" by blast
  from stream_disposition[of exampleDHT ?A, THEN conjunct1, rule_format, OF a1]
  have a2: "\<exists>w2. handleNewStream exampleDHT ?A = Some w2
      \<and> filter isDisposition (added ?A w2) = [EvClose]"
    by auto
  from stream_disposition[of exampleDHT ?B, THEN conjunct1, rule_format, OF b1]
  have b2: "\<exists>w2. handleNewStream exampleDHT ?B = Some w2
      \<and> filter isDisposition (added ?B w2) = [EvReset]"
    by auto
  have ends: "(\<exists>r\<in>set (incoming ?A). snd r \<noteq> None)
      \<and> length (incoming ?A) \<le> length (modes ?A)
      \<and> length (incoming ?A) \<le> length (writeResults ?A)"
    by (simp add: exampleStream_def)
  from stream_disposition[of exampleDHT ?A, THEN conjunct2, THEN conjunct2, rule_format, OF ends]
  have a3: "\<exists>w2. handleNewStream exampleDHT ?A = Some w2" .
  from a1 a2 b1 b2 ends a3 show ?thesis by blast
qed

subsection \<open>The mode gate\<close>

text \<open>
  Claim C2. Every pass checks the mode flag first: the first call of a pass is
  \<^verbatim>\<open>getMode\<close>, the pass makes no second one, and so every read of the pass comes
  after it. When the flag is not \<open>modeServer\<close> the pass returns \<open>False\<close>, and so
  does the session; it reads nothing: no \<^verbatim>\<open>ReadMsg\<close> call is made and the frames
  that were waiting to be read are all still waiting; and it dispatches nothing: no
  handler is looked up or called and nothing is written. \<open>w\<close> is the state at the head
  of any pass, the first or a later one.
\<close>

theorem mode_gate:
  assumes "modes w = m # ms"
  shows "(m \<noteq> modeServer \<longrightarrow>
           (\<exists>w'. iteration dht w = Some (Return False w') \<and> loop dht w = Some (False, w')
              \<and> incoming w' = incoming w \<and> filter isRead (added w w') = []
              \<and> filter isDispatch (added w w') = []))
       \<and> (\<forall>out. iteration dht w = Some out \<longrightarrow>
             (\<exists>es. added w (worldOf out) = EvGetMode m # es \<and> filter isGetMode es = []))"
proof (intro conjI impI allI)
  assume "m \<noteq> modeServer"
  from iteration_gate[OF assms this, of dht] obtain w' where
    "iteration dht w = Some (Return False w')"
    "trace w' = trace w @ [EvGetMode m]
       @ logLine dht ''ignoring incoming dht message while not in server mode''"
    "incoming w' = incoming w"
    by blast
  then show "\<exists>w'. iteration dht w = Some (Return False w') \<and> loop dht w = Some (False, w')
              \<and> incoming w' = incoming w \<and> filter isRead (added w w') = []
              \<and> filter isDispatch (added w w') = []"
    by (auto simp: loop_Return added_append logLine_def)
next
  fix out
  assume "iteration dht w = Some out"
  then show "\<exists>es. added w (worldOf out) = EvGetMode m # es \<and> filter isGetMode es = []"
    using assms
    by (cases rule: iteration_cases)
       (auto simp: added_append logLine_def hookCall_def receipt_def unknownTriple_def
             split: option.splits)
qed

text \<open>
  An instance: a \<^verbatim>\<open>PING\<close> is answered while the node is in server mode; the node then
  leaves server mode while a well-formed \<^verbatim>\<open>FIND_NODE\<close> frame is already waiting. The
  next pass returns \<open>False\<close> and the frame is still unread.
\<close>

theorem mode_gate_witness:
  "\<exists>w1. iteration exampleDHT
            (exampleStream [modeServer, modeClient] [([5], None), ([4, 9], None)] [None, None])
          = Some (Continue w1)
      \<and> modes w1 = modeClient # [] \<and> modeClient \<noteq> modeServer
      \<and> (\<exists>w'. iteration exampleDHT w1 = Some (Return False w')
             \<and> loop exampleDHT w1 = Some (False, w')
             \<and> incoming w' = [([4, 9], None)]
             \<and> filter isRead (added w1 w') = []
             \<and> filter isDispatch (added w1 w') = []
             \<and> (\<exists>es. added w1 w' = EvGetMode modeClient # es \<and> filter isGetMode es = []))"
proof -
  let ?W = "exampleStream [modeServer, modeClient] [([5], None), ([4, 9], None)] [None, None]"
  have "\<exists>w1. iteration exampleDHT ?W = Some (Continue w1)
          \<and> modes w1 = [modeClient] \<and> incoming w1 = [([4, 9], None)]"
    by (simp add: run_defs example_defs)
  then obtain w1 where w1: "iteration exampleDHT ?W = Some (Continue w1)"
    "modes w1 = [modeClient]" "incoming w1 = [([4, 9], None)]"
    by blast
  from mode_gate[OF w1(2), of exampleDHT] w1 show ?thesis by fastforce
qed

subsection \<open>Read errors and end of stream\<close>

text \<open>
  Claim C3. When \<^verbatim>\<open>ReadMsg\<close> returns \<^verbatim>\<open>io.EOF\<close> and no bytes, the pass returns
  \<open>True\<close>, and so does the session; the pass calls no metric instrument at all
  (no counter is incremented and no latency is recorded).
\<close>

theorem eof_closes_orderly:
  assumes "modes w = modeServer # ms" and "incoming w = ([], Some io_EOF) # rs"
  shows "\<exists>w'. iteration dht w = Some (Return True w') \<and> loop dht w = Some (True, w')
           \<and> filter isInstrumentation (added w w') = []"
proof -
  from iteration_eof[OF assms, of dht] obtain w' where
    "iteration dht w = Some (Return True w')"
    "trace w' = trace w @ [EvGetMode modeServer, EvReadMsg [] (Some io_EOF), EvReleaseMsg []]"
    by blast
  then show ?thesis by (auto simp: loop_Return added_append)
qed

theorem eof_closes_orderly_witness:
  "modes (exampleStream [modeServer] [([], Some io_EOF)] []) = modeServer # []
   \<and> incoming (exampleStream [modeServer] [([], Some io_EOF)] []) = ([], Some io_EOF) # []
   \<and> (\<exists>w'. iteration exampleDHT (exampleStream [modeServer] [([], Some io_EOF)] [])
               = Some (Return True w')
          \<and> loop exampleDHT (exampleStream [modeServer] [([], Some io_EOF)] [])
               = Some (True, w')
          \<and> filter isInstrumentation
               (added (exampleStream [modeServer] [([], Some io_EOF)] []) w') = [])"
  using eof_closes_orderly[of "exampleStream [modeServer] [([], Some io_EOF)] []" "[]" "[]"
      exampleDHT]
  by (simp add: exampleStream_def)

text \<open>
  Claim C4, as amended. The claim as it stands takes every read error but an end of
  stream with no bytes pending for a failure. The code does not: line 56 tests
  \<^verbatim>\<open>err == io.EOF\<close> before line 65 looks at the length, so \<^verbatim>\<open>io.EOF\<close> is an orderly end
  whatever buffer comes with it. What holds is this. When \<^verbatim>\<open>ReadMsg\<close> returns an error
  that is not \<^verbatim>\<open>io.EOF\<close>, the pass returns \<open>False\<close>, and so does the session; if the read
  returned a non-empty buffer with the error, the metric calls of the pass are exactly
  three, in this order: \<^verbatim>\<open>ReceivedMessages\<close> by 1, \<^verbatim>\<open>ReceivedMessageErrors\<close> by 1, and
  \<^verbatim>\<open>ReceivedBytes\<close> by the length of the buffer, each tagged \<^verbatim>\<open>UNKNOWN\<close>. When
  \<^verbatim>\<open>ReadMsg\<close> returns \<^verbatim>\<open>io.EOF\<close>, with or without bytes, the pass returns \<open>True\<close>, as
  does the session, and calls no metric instrument.
\<close>

theorem read_error_aborts:
  assumes "modes w = modeServer # ms" and "incoming w = (msgbytes, Some err) # rs"
  shows "(err \<noteq> io_EOF \<longrightarrow>
           (\<exists>w'. iteration dht w = Some (Return False w') \<and> loop dht w = Some (False, w')
              \<and> (msgbytes \<noteq> [] \<longrightarrow> filter isInstrumentation (added w w') =
                    [EvAdd ReceivedMessages 1 ''UNKNOWN'',
                     EvAdd ReceivedMessageErrors 1 ''UNKNOWN'',
                     EvAdd ReceivedBytes (int (length msgbytes)) ''UNKNOWN''])))
       \<and> (err = io_EOF \<longrightarrow>
           (\<exists>w'. iteration dht w = Some (Return True w') \<and> loop dht w = Some (True, w')
              \<and> filter isInstrumentation (added w w') = []))"
proof (intro conjI impI)
  assume ne: "err \<noteq> io_EOF"
  from iteration_read_error[OF assms ne, of dht] obtain w' where
    "iteration dht w = Some (Return False w')"
    "trace w' = trace w @
       [EvGetMode modeServer, EvReadMsg msgbytes (Some err), EvReleaseMsg msgbytes]
       @ (if debugEnabled dht \<and> Error err \<noteq> ''stream reset''
          then [EvLog ''error reading message''] else [])
       @ (if msgbytes \<noteq> [] then unknownTriple (int (length msgbytes)) else [])"
    by blast
  then show "\<exists>w'. iteration dht w = Some (Return False w') \<and> loop dht w = Some (False, w')
              \<and> (msgbytes \<noteq> [] \<longrightarrow> filter isInstrumentation (added w w') =
                    [EvAdd ReceivedMessages 1 ''UNKNOWN'',
                     EvAdd ReceivedMessageErrors 1 ''UNKNOWN'',
                     EvAdd ReceivedBytes (int (length msgbytes)) ''UNKNOWN''])"
    by (auto simp: loop_Return added_append unknownTriple_def)
next
  assume "err = io_EOF"
  with assms(2) have inc: "incoming w = (msgbytes, Some io_EOF) # rs" by simp
  from iteration_eof[OF assms(1) inc, of dht] obtain w' where
    "iteration dht w = Some (Return True w')"
    "trace w' = trace w @
       [EvGetMode modeServer, EvReadMsg msgbytes (Some io_EOF), EvReleaseMsg msgbytes]"
    by blast
  then show "\<exists>w'. iteration dht w = Some (Return True w') \<and> loop dht w = Some (True, w')
              \<and> filter isInstrumentation (added w w') = []"
    by (auto simp: loop_Return added_append)
qed

theorem read_error_aborts_witness:
  "modes (exampleStream [modeServer] [([5, 7, 7], Some (OtherError ''unexpected EOF''))] [])
     = modeServer # []
   \<and> incoming (exampleStream [modeServer] [([5, 7, 7], Some (OtherError ''unexpected EOF''))] [])
     = ([5, 7, 7], Some (OtherError ''unexpected EOF'')) # []
   \<and> OtherError ''unexpected EOF'' \<noteq> io_EOF
   \<and> (\<exists>w'. iteration exampleDHT
               (exampleStream [modeServer] [([5, 7, 7], Some (OtherError ''unexpected EOF''))] [])
               = Some (Return False w')
          \<and> loop exampleDHT
               (exampleStream [modeServer] [([5, 7, 7], Some (OtherError ''unexpected EOF''))] [])
               = Some (False, w')
          \<and> filter isInstrumentation
               (added (exampleStream [modeServer]
                  [([5, 7, 7], Some (OtherError ''unexpected EOF''))] []) w') =
                 [EvAdd ReceivedMessages 1 ''UNKNOWN'',
                  EvAdd ReceivedMessageErrors 1 ''UNKNOWN'',
                  EvAdd ReceivedBytes 3 ''UNKNOWN''])
   \<and> modes (exampleStream [modeServer] [([5, 7, 7], Some io_EOF)] []) = modeServer # []
   \<and> incoming (exampleStream [modeServer] [([5, 7, 7], Some io_EOF)] [])
     = ([5, 7, 7], Some io_EOF) # []
   \<and> (\<exists>w'. iteration exampleDHT (exampleStream [modeServer] [([5, 7, 7], Some io_EOF)] [])
               = Some (Return True w')
          \<and> loop exampleDHT (exampleStream [modeServer] [([5, 7, 7], Some io_EOF)] [])
               = Some (True, w')
          \<and> filter isInstrumentation
               (added (exampleStream [modeServer] [([5, 7, 7], Some io_EOF)] []) w') = [])"
proof -
  let ?A = "exampleStream [modeServer] [([5, 7, 7], Some (OtherError ''unexpected EOF''))] []"
  let ?B = "exampleStream [modeServer] [([5, 7, 7], Some io_EOF)] []"
  have a_in: "modes ?A = modeServer # []"
    "incoming ?A = ([5, 7, 7], Some (OtherError ''unexpected EOF'')) # []"
    by (simp_all add: exampleStream_def)
  have b_in: "modes ?B = modeServer # []" "incoming ?B = ([5, 7, 7], Some io_EOF) # []"
    by (simp_all add: exampleStream_def)
  from read_error_aborts[OF a_in, of exampleDHT] have a_out:
    "\<exists>w'. iteration exampleDHT ?A = Some (Return False w')
       \<and> loop exampleDHT ?A = Some (False, w')
       \<and> filter isInstrumentation (added ?A w') =
            [EvAdd ReceivedMessages 1 ''UNKNOWN'', EvAdd ReceivedMessageErrors 1 ''UNKNOWN'',
             EvAdd ReceivedBytes 3 ''UNKNOWN'']"
    by auto
  from read_error_aborts[OF b_in, of exampleDHT] have b_out:
    "\<exists>w'. iteration exampleDHT ?B = Some (Return True w')
       \<and> loop exampleDHT ?B = Some (True, w')
       \<and> filter isInstrumentation (added ?B w') = []"
    by auto
  from a_in a_out b_in b_out show ?thesis by blast
qed

text \<open>
  The claim as it stands fails on a read that returns \<^verbatim>\<open>io.EOF\<close> together with a
  buffer of three bytes: the session returns \<open>True\<close> and calls no metric instrument,
  where the claim has it return \<open>False\<close> after the three increments.
\<close>

theorem read_error_aborts_counterexample:
  "incoming (exampleStream [modeServer] [([5, 7, 7], Some io_EOF)] [])
     = [([5, 7, 7], Some io_EOF)]
   \<and> [5, 7, 7] \<noteq> ([] :: bytes)
   \<and> handleNewMessage exampleDHT (exampleStream [modeServer] [([5, 7, 7], Some io_EOF)] [])
     = Some (True,
         \<lparr>remotePeer = ''QmPeer'', modes = [], incoming = [], writeResults = [],
          trace = [EvTimerAfterFunc dhtStreamIdleTimeout, EvGetMode modeServer,
                   EvReadMsg [5, 7, 7] (Some io_EOF), EvReleaseMsg [5, 7, 7], EvTimerStop]\<rparr>)
   \<and> filter isInstrumentation
        (added (exampleStream [modeServer] [([5, 7, 7], Some io_EOF)] [])
          \<lparr>remotePeer = ''QmPeer'', modes = [], incoming = [], writeResults = [],
           trace = [EvTimerAfterFunc dhtStreamIdleTimeout, EvGetMode modeServer,
                    EvReadMsg [5, 7, 7] (Some io_EOF), EvReleaseMsg [5, 7, 7], EvTimerStop]\<rparr>)
     = []"
  by (simp add: run_defs example_defs added_def)

subsection \<open>Frames that do not decode\<close>

text \<open>
  Claim C5. When a frame is read without error and \<^verbatim>\<open>Unmarshal\<close> fails on it, the
  metric calls of the pass are exactly the three increments tagged \<^verbatim>\<open>UNKNOWN\<close>, the
  byte count being the length of the frame, and the pass returns \<open>False\<close>, as does the
  session. The frame is read once and decoded once, nothing is dispatched, and the
  frames behind it are left unread: the session ends there.
\<close>

theorem decode_error_aborts:
  assumes "modes w = modeServer # ms" and "incoming w = (msgbytes, None) # rs"
    and "Unmarshal dht msgbytes = Inl err"
  shows "\<exists>w'. iteration dht w = Some (Return False w') \<and> loop dht w = Some (False, w')
           \<and> filter isInstrumentation (added w w') =
                 [EvAdd ReceivedMessages 1 ''UNKNOWN'',
                  EvAdd ReceivedMessageErrors 1 ''UNKNOWN'',
                  EvAdd ReceivedBytes (int (length msgbytes)) ''UNKNOWN'']
           \<and> filter isRead (added w w') = [EvReadMsg msgbytes None]
           \<and> filter isUnmarshal (added w w') = [EvUnmarshal msgbytes False]
           \<and> filter isDispatch (added w w') = []
           \<and> incoming w' = rs"
proof -
  from iteration_decode_error[OF assms] obtain w' where
    "iteration dht w = Some (Return False w')"
    "trace w' = trace w @
       [EvGetMode modeServer, EvReadMsg msgbytes None, EvUnmarshal msgbytes False,
        EvReleaseMsg msgbytes]
       @ logLine dht ''error unmarshaling message''
       @ unknownTriple (int (length msgbytes))"
    "incoming w' = rs"
    by blast
  then show ?thesis
    by (auto simp: loop_Return added_append unknownTriple_def logLine_def)
qed

theorem decode_error_aborts_witness:
  "modes (exampleStream [modeServer, modeServer] [([200, 9], None), ([5], None)] [None])
     = modeServer # [modeServer]
   \<and> incoming (exampleStream [modeServer, modeServer] [([200, 9], None), ([5], None)] [None])
     = ([200, 9], None) # [([5], None)]
   \<and> Unmarshal exampleDHT [200, 9] = Inl (OtherError ''proto: illegal wireType 7'')
   \<and> (\<exists>w'. iteration exampleDHT
               (exampleStream [modeServer, modeServer] [([200, 9], None), ([5], None)] [None])
               = Some (Return False w')
          \<and> loop exampleDHT
               (exampleStream [modeServer, modeServer] [([200, 9], None), ([5], None)] [None])
               = Some (False, w')
          \<and> filter isInstrumentation
               (added (exampleStream [modeServer, modeServer]
                  [([200, 9], None), ([5], None)] [None]) w') =
                 [EvAdd ReceivedMessages 1 ''UNKNOWN'',
                  EvAdd ReceivedMessageErrors 1 ''UNKNOWN'',
                  EvAdd ReceivedBytes 2 ''UNKNOWN'']
          \<and> filter isRead
               (added (exampleStream [modeServer, modeServer]
                  [([200, 9], None), ([5], None)] [None]) w') = [EvReadMsg [200, 9] None]
          \<and> incoming w' = [([5], None)])"
  using decode_error_aborts[of
      "exampleStream [modeServer, modeServer] [([200, 9], None), ([5], None)] [None]"
      "[modeServer]" "[200, 9]" "[([5], None)]" exampleDHT
      "OtherError ''proto: illegal wireType 7''"]
  by (auto simp: exampleStream_def exampleDHT_def exampleUnmarshal_def)

subsection \<open>Decoded frames: timer, receipt, dispatch, response\<close>

text \<open>
  Claim C6. A pass calls \<^verbatim>\<open>timer.Reset\<close> exactly when it has read a frame without
  error and decoded it. Then it calls it once, with \<open>dhtStreamIdleTimeout\<close>, right
  after the decode and the release of the buffer: the calls before it are the mode
  check, the read, the decode and the release, so the handler lookup, the handler call
  and the write of the response all come after it. This holds for every outcome of the
  pass, the failing ones included. A pass that does not get that far (mode gate, read
  error, end of stream, decode error) never calls \<^verbatim>\<open>timer.Reset\<close>.
\<close>

theorem watchdog_rearm:
  assumes "iteration dht w = Some out"
  shows "(\<forall>ms msgbytes rs req.
            modes w = modeServer # ms \<and> incoming w = (msgbytes, None) # rs
            \<and> Unmarshal dht msgbytes = Inr req \<longrightarrow>
            (\<exists>post. added w (worldOf out) =
                [EvGetMode modeServer, EvReadMsg msgbytes None, EvUnmarshal msgbytes True,
                 EvReleaseMsg msgbytes]
                @ EvTimerReset dhtStreamIdleTimeout # post
              \<and> filter isTimerReset post = []))
       \<and> ((\<nexists>ms msgbytes rs req.
              modes w = modeServer # ms \<and> incoming w = (msgbytes, None) # rs
              \<and> Unmarshal dht msgbytes = Inr req) \<longrightarrow>
            filter isTimerReset (added w (worldOf out)) = [])"
  using assms
proof (cases rule: iteration_cases)
  case (gate m ms w')
  then show ?thesis by (auto simp: added_append)
next
  case (eof ms msgbytes rs w')
  then show ?thesis by (auto simp: added_append)
next
  case (read_error ms msgbytes err rs w')
  then show ?thesis by (auto simp: added_append unknownTriple_def)
next
  case (decode_error ms msgbytes rs err w')
  then show ?thesis by (auto simp: added_append unknownTriple_def)
next
  case (no_handler ms msgbytes rs req w')
  then show ?thesis by (auto simp: added_append receipt_def)
next
  case (handler_error ms msgbytes rs req h r err w')
  then show ?thesis by (auto simp: added_append receipt_def)
next
  case (no_response ms msgbytes rs req h w')
  then show ?thesis by (auto simp: added_append receipt_def)
next
  case (write_error ms msgbytes rs req h resp err ws w')
  then show ?thesis by (auto simp: added_append receipt_def)
next
  case (write_ok ms msgbytes rs req h resp ws w')
  then show ?thesis by (auto simp: added_append receipt_def)
qed

text \<open>
  Two passes: a \<^verbatim>\<open>PUT_VALUE\<close> whose handler fails (the timer is reset all the same),
  and a frame that does not decode (it is not).
\<close>

theorem watchdog_rearm_witness:
  "(\<exists>w'. iteration exampleDHT (exampleStream [modeServer] [([0, 7], None)] []) = Some (Return False w')
      \<and> modes (exampleStream [modeServer] [([0, 7], None)] []) = modeServer # []
      \<and> incoming (exampleStream [modeServer] [([0, 7], None)] []) = ([0, 7], None) # []
      \<and> Unmarshal exampleDHT [0, 7] = Inr \<lparr>msgType = 0, msgKey = [7], msgBody = []\<rparr>
      \<and> (\<exists>post. added (exampleStream [modeServer] [([0, 7], None)] []) w' =
            [EvGetMode modeServer, EvReadMsg [0, 7] None, EvUnmarshal [0, 7] True,
             EvReleaseMsg [0, 7]] @ EvTimerReset dhtStreamIdleTimeout # post
          \<and> filter isTimerReset post = []))
   \<and> (\<exists>w'. iteration exampleDHT (exampleStream [modeServer] [([200, 9], None)] [])
            = Some (Return False w')
      \<and> (\<nexists>ms msgbytes rs req.
            modes (exampleStream [modeServer] [([200, 9], None)] []) = modeServer # ms
            \<and> incoming (exampleStream [modeServer] [([200, 9], None)] []) = (msgbytes, None) # rs
            \<and> Unmarshal exampleDHT msgbytes = Inr req)
      \<and> filter isTimerReset (added (exampleStream [modeServer] [([200, 9], None)] []) w') = [])"
proof -
  let ?A = "exampleStream [modeServer] [([0, 7], None)] []"
  let ?B = "exampleStream [modeServer] [([200, 9], None)] []"
  have "\<exists>w'. iteration exampleDHT ?A = Some (Return False w')"
    by (simp add: run_defs example_defs)
  then obtain a where a: "iteration exampleDHT ?A = Some (Return False a)" by blast
  have a_in: "modes ?A = modeServer # [] \<and> incoming ?A = ([0, 7], None) # []
      \<and> Unmarshal exampleDHT [0, 7] = Inr \<lparr>msgType = 0, msgKey = [7], msgBody = []\<rparr>"
    by (simp add: example_defs)
  have "\<exists>w'. iteration exampleDHT ?B = Some (Return False w')"
    by (simp add: run_defs example_defs)
  then obtain b where b: "iteration exampleDHT ?B = Some (Return False b)" by blast
  have b_in: "\<nexists>ms msgbytes rs req. modes ?B = modeServer # ms
      \<and> incoming ?B = (msgbytes, None) # rs \<and> Unmarshal exampleDHT msgbytes = Inr req"
    by (simp add: example_defs)
  from watchdog_rearm[OF a] a_in have
    "\<exists>post. added ?A a =
        [EvGetMode modeServer, EvReadMsg [0, 7] None, EvUnmarshal [0, 7] True,
         EvReleaseMsg [0, 7]] @ EvTimerReset dhtStreamIdleTimeout # post
      \<and> filter isTimerReset post = []"
    by (metis worldOf.simps(2))
  moreover from watchdog_rearm[OF b] b_in have "filter isTimerReset (added ?B b) = []"
    by (metis worldOf.simps(2))
  ultimately show ?thesis using a a_in b b_in by blast
qed

text \<open>
  Claim C7. A pass that has read and decoded a frame increments \<^verbatim>\<open>ReceivedMessages\<close>
  by 1 and \<^verbatim>\<open>ReceivedBytes\<close> by the length of the frame, both tagged with the name of
  the message's type, before the hook, the handler lookup, the handler call and the
  write; it increments neither counter again, whatever the outcome of the pass. Such a
  pass has an outcome unless it is blocked in the write of a response. When the handler
  returns a response and no error and the write succeeds, the pass does not return and
  the loop runs the next pass on the same stream, the remaining frames still to be
  read: with an answer left in each script the next pass has an outcome, and the loop
  returns what it returns or goes on from where it continues; in server mode the next
  pass reads the next frame; if the node has left server mode the loop returns \<open>False\<close>
  without reading, and if the next read fails the loop returns right after it, \<open>True\<close>
  exactly for \<^verbatim>\<open>io.EOF\<close>.
\<close>

theorem receipt_instrumented:
  assumes "modes w = modeServer # ms" and "incoming w = (msgbytes, None) # rs"
    and "Unmarshal dht msgbytes = Inr req"
  shows "(\<forall>out. iteration dht w = Some out \<longrightarrow>
            (\<exists>post. added w (worldOf out) =
                [EvGetMode modeServer, EvReadMsg msgbytes None, EvUnmarshal msgbytes True,
                 EvReleaseMsg msgbytes, EvTimerReset dhtStreamIdleTimeout,
                 EvAdd ReceivedMessages 1 (typeString dht (msgType req)),
                 EvAdd ReceivedBytes (int (length msgbytes)) (typeString dht (msgType req))]
                @ post
              \<and> filter (isAdd ReceivedMessages) post = []
              \<and> filter (isAdd ReceivedBytes) post = []))
       \<and> (iteration dht w = None \<longrightarrow>
            writeResults w = [] \<and>
            (\<exists>h resp. handlerForMsgType dht (msgType req) = Some h
               \<and> h (ctx dht) (remotePeer w) req = (Some resp, None)))
       \<and> (\<forall>h resp ws.
            handlerForMsgType dht (msgType req) = Some h
            \<and> h (ctx dht) (remotePeer w) req = (Some resp, None)
            \<and> writeResults w = None # ws \<longrightarrow>
            (\<exists>w'. iteration dht w = Some (Continue w') \<and> loop dht w = loop dht w'
               \<and> modes w' = ms \<and> incoming w' = rs \<and> writeResults w' = ws
               \<and> (\<forall>out2. iteration dht w' = Some out2 \<longrightarrow>
            (\<forall>ms' r rs'. modes w' = modeServer # ms' \<and> incoming w' = r # rs' \<longrightarrow>
               filter isRead (added w' (worldOf out2)) = [EvReadMsg (fst r) (snd r)]
               \<and> incoming (worldOf out2) = rs')
          \<and> (\<forall>b wf. out2 = Return b wf \<longrightarrow> loop dht w = Some (b, wf))
          \<and> (\<forall>w2. out2 = Continue w2 \<longrightarrow> loop dht w = loop dht w2))
       \<and> (modes w' \<noteq> [] \<and> incoming w' \<noteq> [] \<and> writeResults w' \<noteq> [] \<longrightarrow>
            (\<exists>out2. iteration dht w' = Some out2))
       \<and> (\<forall>m ms'. modes w' = m # ms' \<and> m \<noteq> modeServer \<longrightarrow>
            (\<exists>wf. loop dht w = Some (False, wf) \<and> incoming wf = incoming w'
               \<and> filter isRead (added w' wf) = []))
       \<and> (\<forall>ms' bs2 err rs'. modes w' = modeServer # ms' \<and> incoming w' = (bs2, Some err) # rs' \<longrightarrow>
            (\<exists>wf. loop dht w = Some (err = io_EOF, wf) \<and> incoming wf = rs'
               \<and> filter isRead (added w' wf) = [EvReadMsg bs2 (Some err)]))))"
proof (intro conjI allI impI)
  fix out
  assume "iteration dht w = Some out"
  then show "\<exists>post. added w (worldOf out) =
                [EvGetMode modeServer, EvReadMsg msgbytes None, EvUnmarshal msgbytes True,
                 EvReleaseMsg msgbytes, EvTimerReset dhtStreamIdleTimeout,
                 EvAdd ReceivedMessages 1 (typeString dht (msgType req)),
                 EvAdd ReceivedBytes (int (length msgbytes)) (typeString dht (msgType req))]
                @ post
              \<and> filter (isAdd ReceivedMessages) post = []
              \<and> filter (isAdd ReceivedBytes) post = []"
    using assms
    by (cases rule: iteration_cases) (auto simp: added_append receipt_def)
next
  assume "iteration dht w = None"
  from iteration_decoded_outcome[OF assms this]
  show "writeResults w = []"
    and "\<exists>h resp. handlerForMsgType dht (msgType req) = Some h
               \<and> h (ctx dht) (remotePeer w) req = (Some resp, None)"
    by blast+
next
  fix h resp ws
  assume a: "handlerForMsgType dht (msgType req) = Some h
            \<and> h (ctx dht) (remotePeer w) req = (Some resp, None)
            \<and> writeResults w = None # ws"
  from iteration_decoded[OF assms] obtain w2 where
    w2: "iteration dht w = serveRequest dht (int (length msgbytes)) req w2"
      "modes w2 = ms" "incoming w2 = rs"
      "writeResults w2 = writeResults w" "remotePeer w2 = remotePeer w"
    by blast
  from a w2 serve_write_ok[of dht req h w2 resp ws "int (length msgbytes)"]
  obtain w' where w': "iteration dht w = Some (Continue w')"
    "modes w' = ms" "incoming w' = rs" "writeResults w' = ws"
    by auto
  note on = loop_goes_on[OF w'(1)]
  from w' loop_Continue[OF w'(1)] on[THEN conjunct1] on[THEN conjunct2, THEN conjunct1]
    on[THEN conjunct2, THEN conjunct2, THEN conjunct1]
    on[THEN conjunct2, THEN conjunct2, THEN conjunct2]
  show "\<exists>w'. iteration dht w = Some (Continue w') \<and> loop dht w = loop dht w'
               \<and> modes w' = ms \<and> incoming w' = rs \<and> writeResults w' = ws
               \<and> (\<forall>out2. iteration dht w' = Some out2 \<longrightarrow>
            (\<forall>ms' r rs'. modes w' = modeServer # ms' \<and> incoming w' = r # rs' \<longrightarrow>
               filter isRead (added w' (worldOf out2)) = [EvReadMsg (fst r) (snd r)]
               \<and> incoming (worldOf out2) = rs')
          \<and> (\<forall>b wf. out2 = Return b wf \<longrightarrow> loop dht w = Some (b, wf))
          \<and> (\<forall>w2. out2 = Continue w2 \<longrightarrow> loop dht w = loop dht w2))
       \<and> (modes w' \<noteq> [] \<and> incoming w' \<noteq> [] \<and> writeResults w' \<noteq> [] \<longrightarrow>
            (\<exists>out2. iteration dht w' = Some out2))
       \<and> (\<forall>m ms'. modes w' = m # ms' \<and> m \<noteq> modeServer \<longrightarrow>
            (\<exists>wf. loop dht w = Some (False, wf) \<and> incoming wf = incoming w'
               \<and> filter isRead (added w' wf) = []))
       \<and> (\<forall>ms' bs2 err rs'. modes w' = modeServer # ms' \<and> incoming w' = (bs2, Some err) # rs' \<longrightarrow>
            (\<exists>wf. loop dht w = Some (err = io_EOF, wf) \<and> incoming wf = rs'
               \<and> filter isRead (added w' wf) = [EvReadMsg bs2 (Some err)]))"
    by (intro exI[of _ w'] conjI) assumption+
qed

text \<open>
  Three streams: a \<^verbatim>\<open>PUT_VALUE\<close> whose handler fails (the receipt is counted all the
  same); a \<^verbatim>\<open>PING\<close> that is answered, after which the loop reads and answers the
  \<^verbatim>\<open>FIND_NODE\<close> behind it, reads the end of the stream and returns \<open>True\<close>; and a
  \<^verbatim>\<open>PING\<close> whose answer finds the script of write results empty (the pass is blocked
  in the write).
\<close>

theorem receipt_instrumented_witness:
  "modes (exampleStream [modeServer] [([0, 7], None)] []) = modeServer # []
   \<and> incoming (exampleStream [modeServer] [([0, 7], None)] []) = ([0, 7], None) # []
   \<and> Unmarshal exampleDHT [0, 7] = Inr \<lparr>msgType = 0, msgKey = [7], msgBody = []\<rparr>
   \<and> (\<exists>w'. iteration exampleDHT (exampleStream [modeServer] [([0, 7], None)] [])
              = Some (Return False w')
        \<and> (\<exists>post. added (exampleStream [modeServer] [([0, 7], None)] []) w' =
              [EvGetMode modeServer, EvReadMsg [0, 7] None, EvUnmarshal [0, 7] True,
               EvReleaseMsg [0, 7], EvTimerReset dhtStreamIdleTimeout,
               EvAdd ReceivedMessages 1 ''PUT_VALUE'', EvAdd ReceivedBytes 2 ''PUT_VALUE'']
              @ post
            \<and> filter (isAdd ReceivedMessages) post = []
            \<and> filter (isAdd ReceivedBytes) post = []))
   \<and> modes (exampleStream [modeServer, modeServer, modeServer]
         [([5], None), ([4, 9], None), ([], Some io_EOF)] [None, None])
        = modeServer # [modeServer, modeServer]
   \<and> incoming (exampleStream [modeServer, modeServer, modeServer]
         [([5], None), ([4, 9], None), ([], Some io_EOF)] [None, None])
        = ([5], None) # [([4, 9], None), ([], Some io_EOF)]
   \<and> Unmarshal exampleDHT [5] = Inr \<lparr>msgType = 5, msgKey = [], msgBody = []\<rparr>
   \<and> (\<exists>h. handlerForMsgType exampleDHT 5 = Some h
        \<and> h ''ctx'' ''QmPeer'' \<lparr>msgType = 5, msgKey = [], msgBody = []\<rparr>
            = (Some \<lparr>msgType = 5, msgKey = [], msgBody = []\<rparr>, None))
   \<and> (\<exists>w' w2 wf.
          iteration exampleDHT (exampleStream [modeServer, modeServer, modeServer]
             [([5], None), ([4, 9], None), ([], Some io_EOF)] [None, None])
             = Some (Continue w')
        \<and> modes w' = [modeServer, modeServer]
        \<and> incoming w' = [([4, 9], None), ([], Some io_EOF)] \<and> writeResults w' = [None]
        \<and> iteration exampleDHT w' = Some (Continue w2)
        \<and> filter isRead (added w' w2) = [EvReadMsg [4, 9] None]
        \<and> incoming w2 = [([], Some io_EOF)]
        \<and> loop exampleDHT (exampleStream [modeServer, modeServer, modeServer]
             [([5], None), ([4, 9], None), ([], Some io_EOF)] [None, None])
             = loop exampleDHT w2
        \<and> loop exampleDHT w2 = Some (True, wf)
        \<and> filter isRead (added w2 wf) = [EvReadMsg [] (Some io_EOF)])
   \<and> modes (exampleStream [modeServer] [([5], None)] []) = modeServer # []
   \<and> incoming (exampleStream [modeServer] [([5], None)] []) = ([5], None) # []
   \<and> iteration exampleDHT (exampleStream [modeServer] [([5], None)] []) = None
   \<and> writeResults (exampleStream [modeServer] [([5], None)] []) = []"
proof -
  let ?A = "exampleStream [modeServer] [([0, 7], None)] []"
  let ?B = "exampleStream [modeServer, modeServer, modeServer]
         [([5], None), ([4, 9], None), ([], Some io_EOF)] [None, None]"
  let ?C = "exampleStream [modeServer] [([5], None)] []"
  let ?ping = "\<lparr>msgType = 5, msgKey = [], msgBody = []\<rparr>"
  let ?find = "\<lparr>msgType = 4, msgKey = [9], msgBody = []\<rparr>"
  have a_in: "modes ?A = modeServer # []" "incoming ?A = ([0, 7], None) # []"
    "Unmarshal exampleDHT [0, 7] = Inr \<lparr>msgType = 0, msgKey = [7], msgBody = []\<rparr>"
    by (simp_all add: example_defs)
  have "\<exists>w'. iteration exampleDHT ?A = Some (Return False w')"
    by (simp add: run_defs example_defs)
  then obtain a where a: "iteration exampleDHT ?A = Some (Return False a)" by blast
  have ts: "typeString exampleDHT 0 = ''PUT_VALUE''" by (simp add: example_defs)
  from receipt_instrumented[OF a_in, THEN conjunct1, rule_format, OF a] ts have a_out:
    "\<exists>post. added ?A a =
        [EvGetMode modeServer, EvReadMsg [0, 7] None, EvUnmarshal [0, 7] True,
         EvReleaseMsg [0, 7], EvTimerReset dhtStreamIdleTimeout,
         EvAdd ReceivedMessages 1 ''PUT_VALUE'', EvAdd ReceivedBytes 2 ''PUT_VALUE'']
        @ post
      \<and> filter (isAdd ReceivedMessages) post = []
      \<and> filter (isAdd ReceivedBytes) post = []"
    by simp
  have b_in: "modes ?B = modeServer # [modeServer, modeServer]"
    "incoming ?B = ([5], None) # [([4, 9], None), ([], Some io_EOF)]"
    "Unmarshal exampleDHT [5] = Inr ?ping"
    by (simp_all add: example_defs)
  have b_h: "\<exists>h. handlerForMsgType exampleDHT 5 = Some h
      \<and> (\<forall>p. h ''ctx'' p ?ping = (Some ?ping, None))"
    by (simp add: example_defs)
  then obtain h where h: "handlerForMsgType exampleDHT 5 = Some h"
    "\<And>p. h ''ctx'' p ?ping = (Some ?ping, None)"
    by blast
  have b_pre: "handlerForMsgType exampleDHT (msgType ?ping) = Some h
      \<and> h (ctx exampleDHT) (remotePeer ?B) ?ping = (Some ?ping, None)
      \<and> writeResults ?B = None # [None]"
    using h by (simp add: example_defs)
  from receipt_instrumented[OF b_in, THEN conjunct2, THEN conjunct2, rule_format, OF b_pre]
  obtain w' where w': "iteration exampleDHT ?B = Some (Continue w')"
    "modes w' = [modeServer, modeServer]"
    "incoming w' = [([4, 9], None), ([], Some io_EOF)]" "writeResults w' = [None]"
    and on: "\<forall>out2. iteration exampleDHT w' = Some out2 \<longrightarrow>
            (\<forall>ms' r rs'. modes w' = modeServer # ms' \<and> incoming w' = r # rs' \<longrightarrow>
               filter isRead (added w' (worldOf out2)) = [EvReadMsg (fst r) (snd r)]
               \<and> incoming (worldOf out2) = rs')
          \<and> (\<forall>b wf. out2 = Return b wf \<longrightarrow> loop exampleDHT ?B = Some (b, wf))
          \<and> (\<forall>w2. out2 = Continue w2 \<longrightarrow> loop exampleDHT ?B = loop exampleDHT w2)"
    by (elim exE conjE)
  have c2_in: "modes w' = modeServer # [modeServer]"
    "incoming w' = ([4, 9], None) # [([], Some io_EOF)]"
    "Unmarshal exampleDHT [4, 9] = Inr ?find"
    using w'(2,3) by (simp_all add: example_defs)
  have "\<exists>h. handlerForMsgType exampleDHT 4 = Some h
      \<and> (\<forall>p. h ''ctx'' p ?find = (Some (?find\<lparr>msgBody := [1, 2, 3]\<rparr>), None))"
    by (simp add: example_defs)
  then obtain h4 where h4: "handlerForMsgType exampleDHT 4 = Some h4"
    "\<And>p. h4 ''ctx'' p ?find = (Some (?find\<lparr>msgBody := [1, 2, 3]\<rparr>), None)"
    by blast
  have c2_pre: "handlerForMsgType exampleDHT (msgType ?find) = Some h4
      \<and> h4 (ctx exampleDHT) (remotePeer w') ?find = (Some (?find\<lparr>msgBody := [1, 2, 3]\<rparr>), None)
      \<and> writeResults w' = None # []"
    using h4 w'(4) by (simp add: example_defs)
  from receipt_instrumented[OF c2_in, THEN conjunct2, THEN conjunct2, rule_format, OF c2_pre]
  obtain w2 where w2: "iteration exampleDHT w' = Some (Continue w2)"
    "modes w2 = [modeServer]" "incoming w2 = [([], Some io_EOF)]"
    and on2: "\<forall>ms' bs2 err rs'. modes w2 = modeServer # ms'
            \<and> incoming w2 = (bs2, Some err) # rs' \<longrightarrow>
            (\<exists>wf. loop exampleDHT w' = Some (err = io_EOF, wf) \<and> incoming wf = rs'
               \<and> filter isRead (added w2 wf) = [EvReadMsg bs2 (Some err)])"
    by (elim exE conjE)
  from on[rule_format, OF w2(1)] w'(2,3) have
    r2: "filter isRead (added w' w2) = [EvReadMsg [4, 9] None]"
    and l2: "loop exampleDHT ?B = loop exampleDHT w2"
    by simp_all
  from on2[rule_format, of "[]" "[]" io_EOF "[]"] w2(2,3) obtain wf where
    wf: "loop exampleDHT w' = Some (True, wf)"
      "filter isRead (added w2 wf) = [EvReadMsg [] (Some io_EOF)]"
    by auto
  from loop_Continue[OF w2(1)] wf(1) have l3: "loop exampleDHT w2 = Some (True, wf)" by simp
  have c_in: "modes ?C = modeServer # []" "incoming ?C = ([5], None) # []"
    "Unmarshal exampleDHT [5] = Inr ?ping"
    by (simp_all add: example_defs)
  have c: "iteration exampleDHT ?C = None"
    by (simp add: run_defs example_defs)
  from receipt_instrumented[OF c_in, THEN conjunct2, THEN conjunct1, rule_format, OF c]
  have c_out: "writeResults ?C = []" by simp
  have b_h': "\<exists>h. handlerForMsgType exampleDHT 5 = Some h
      \<and> h ''ctx'' ''QmPeer'' ?ping = (Some ?ping, None)"
    using h by blast
  have B: "\<exists>w' w2 wf. iteration exampleDHT ?B = Some (Continue w')
        \<and> modes w' = [modeServer, modeServer]
        \<and> incoming w' = [([4, 9], None), ([], Some io_EOF)] \<and> writeResults w' = [None]
        \<and> iteration exampleDHT w' = Some (Continue w2)
        \<and> filter isRead (added w' w2) = [EvReadMsg [4, 9] None]
        \<and> incoming w2 = [([], Some io_EOF)]
        \<and> loop exampleDHT ?B = loop exampleDHT w2
        \<and> loop exampleDHT w2 = Some (True, wf)
        \<and> filter isRead (added w2 wf) = [EvReadMsg [] (Some io_EOF)]"
    using w' w2(1,3) r2 l2 l3 wf(2) by blast
  from a_in a a_out b_in b_h' B c_in(1,2) c c_out show ?thesis by blast
qed

text \<open>
  Claim C8. When the type of a decoded message has no handler, or its handler returns
  an error, or the write of the response fails, the pass increments
  \<^verbatim>\<open>ReceivedMessageErrors\<close> exactly once, by 1, tagged with the name of the message's
  type, and returns \<open>False\<close>, as does the session. No write succeeds in that pass, the
  handler is called at most once and a write attempted at most once, the frame is read
  once, and the frames behind it are left unread.
\<close>

theorem dispatch_failure_aborts:
  assumes "modes w = modeServer # ms" and "incoming w = (msgbytes, None) # rs"
    and "Unmarshal dht msgbytes = Inr req"
    and "handlerForMsgType dht (msgType req) = None
         \<or> (\<exists>h r err. handlerForMsgType dht (msgType req) = Some h
               \<and> h (ctx dht) (remotePeer w) req = (r, Some err))
         \<or> (\<exists>h resp err ws. handlerForMsgType dht (msgType req) = Some h
               \<and> h (ctx dht) (remotePeer w) req = (Some resp, None)
               \<and> writeResults w = Some err # ws)"
  shows "\<exists>w'. iteration dht w = Some (Return False w') \<and> loop dht w = Some (False, w')
           \<and> filter (isAdd ReceivedMessageErrors) (added w w') =
                [EvAdd ReceivedMessageErrors 1 (typeString dht (msgType req))]
           \<and> filter isDelivered (added w w') = []
           \<and> length (filter isHandlerCall (added w w')) \<le> 1
           \<and> length (filter isWrite (added w w')) \<le> 1
           \<and> filter isRead (added w w') = [EvReadMsg msgbytes None]
           \<and> incoming w' = rs"
proof -
  from iteration_decoded[OF assms(1-3)] obtain w2 where
    w2: "iteration dht w = serveRequest dht (int (length msgbytes)) req w2"
      "trace w2 = trace w @
        [EvGetMode modeServer, EvReadMsg msgbytes None, EvUnmarshal msgbytes True,
         EvReleaseMsg msgbytes]"
      "modes w2 = ms" "incoming w2 = rs"
      "writeResults w2 = writeResults w" "remotePeer w2 = remotePeer w"
    by blast
  from assms(4) consider
      (no_handler) "handlerForMsgType dht (msgType req) = None"
    | (handler_error) h r err where "handlerForMsgType dht (msgType req) = Some h"
        "h (ctx dht) (remotePeer w) req = (r, Some err)"
    | (write_error) h resp err ws where "handlerForMsgType dht (msgType req) = Some h"
        "h (ctx dht) (remotePeer w) req = (Some resp, None)" "writeResults w = Some err # ws"
    by auto
  then show ?thesis
  proof cases
    case no_handler
    from serve_no_handler[OF this, of "int (length msgbytes)" w2] w2
    show ?thesis by (auto simp: loop_Return added_append)
  next
    case handler_error
    from serve_handler_error[OF handler_error(1), of w2 r err "int (length msgbytes)"]
      handler_error(2) w2
    show ?thesis by (auto simp: loop_Return added_append)
  next
    case write_error
    from serve_write_error[OF write_error(1), of w2 resp err ws "int (length msgbytes)"]
      write_error(2,3) w2
    show ?thesis by (auto simp: loop_Return added_append)
  qed
qed

text \<open>One pass for each of the three failures.\<close>

theorem dispatch_failure_aborts_witness:
  "(\<exists>w'. handlerForMsgType exampleDHT 7 = None
        \<and> iteration exampleDHT (exampleStream [modeServer] [([7], None)] [None])
             = Some (Return False w')
        \<and> loop exampleDHT (exampleStream [modeServer] [([7], None)] [None]) = Some (False, w')
        \<and> filter (isAdd ReceivedMessageErrors)
             (added (exampleStream [modeServer] [([7], None)] [None]) w')
             = [EvAdd ReceivedMessageErrors 1 ''OTHER'']
        \<and> filter isDelivered (added (exampleStream [modeServer] [([7], None)] [None]) w') = []
        \<and> filter isWrite (added (exampleStream [modeServer] [([7], None)] [None]) w') = [])
   \<and> (\<exists>w' h. handlerForMsgType exampleDHT 0 = Some h
        \<and> h ''ctx'' ''QmPeer'' \<lparr>msgType = 0, msgKey = [7], msgBody = []\<rparr>
             = (None, Some (OtherError ''no record''))
        \<and> iteration exampleDHT (exampleStream [modeServer] [([0, 7], None)] [None])
             = Some (Return False w')
        \<and> loop exampleDHT (exampleStream [modeServer] [([0, 7], None)] [None]) = Some (False, w')
        \<and> filter (isAdd ReceivedMessageErrors)
             (added (exampleStream [modeServer] [([0, 7], None)] [None]) w')
             = [EvAdd ReceivedMessageErrors 1 ''PUT_VALUE'']
        \<and> filter isDelivered (added (exampleStream [modeServer] [([0, 7], None)] [None]) w') = [])
   \<and> (\<exists>w' h. handlerForMsgType exampleDHT 5 = Some h
        \<and> h ''ctx'' ''QmPeer'' \<lparr>msgType = 5, msgKey = [], msgBody = []\<rparr>
             = (Some \<lparr>msgType = 5, msgKey = [], msgBody = []\<rparr>, None)
        \<and> writeResults (exampleStream [modeServer] [([5], None)] [Some (OtherError ''stream reset'')])
             = Some (OtherError ''stream reset'') # []
        \<and> iteration exampleDHT
             (exampleStream [modeServer] [([5], None)] [Some (OtherError ''stream reset'')])
             = Some (Return False w')
        \<and> loop exampleDHT
             (exampleStream [modeServer] [([5], None)] [Some (OtherError ''stream reset'')])
             = Some (False, w')
        \<and> filter (isAdd ReceivedMessageErrors)
             (added (exampleStream [modeServer] [([5], None)] [Some (OtherError ''stream reset'')]) w')
             = [EvAdd ReceivedMessageErrors 1 ''PING'']
        \<and> filter isDelivered
             (added (exampleStream [modeServer] [([5], None)] [Some (OtherError ''stream reset'')]) w')
             = [])"
proof -
  let ?A = "exampleStream [modeServer] [([7], None)] [None]"
  let ?B = "exampleStream [modeServer] [([0, 7], None)] [None]"
  let ?C = "exampleStream [modeServer] [([5], None)] [Some (OtherError ''stream reset'')]"
  let ?put = "\<lparr>msgType = 0, msgKey = [7], msgBody = []\<rparr>"
  let ?ping = "\<lparr>msgType = 5, msgKey = [], msgBody = []\<rparr>"
  have a_in: "modes ?A = modeServer # []" "incoming ?A = ([7], None) # []"
    "Unmarshal exampleDHT [7] = Inr \<lparr>msgType = 7, msgKey = [], msgBody = []\<rparr>"
    by (simp_all add: example_defs)
  have a_h: "handlerForMsgType exampleDHT 7 = None" by (simp add: example_defs)
  have a_t: "typeString exampleDHT 7 = ''OTHER''" by (simp add: example_defs)
  from dispatch_failure_aborts[OF a_in] a_h a_t have a_out:
    "\<exists>w'. iteration exampleDHT ?A = Some (Return False w')
       \<and> loop exampleDHT ?A = Some (False, w')
       \<and> filter (isAdd ReceivedMessageErrors) (added ?A w') = [EvAdd ReceivedMessageErrors 1 ''OTHER'']
       \<and> filter isDelivered (added ?A w') = []"
    by fastforce
  then obtain a where a: "iteration exampleDHT ?A = Some (Return False a)"
    "loop exampleDHT ?A = Some (False, a)"
    "filter (isAdd ReceivedMessageErrors) (added ?A a) = [EvAdd ReceivedMessageErrors 1 ''OTHER'']"
    "filter isDelivered (added ?A a) = []"
    by blast
  have "\<exists>w'. iteration exampleDHT ?A = Some (Return False w') \<and> filter isWrite (added ?A w') = []"
    by (simp add: run_defs example_defs added_def)
  with a(1) have a_w: "filter isWrite (added ?A a) = []" by auto
  have b_in: "modes ?B = modeServer # []" "incoming ?B = ([0, 7], None) # []"
    "Unmarshal exampleDHT [0, 7] = Inr ?put"
    by (simp_all add: example_defs)
  have b_h: "\<exists>h. handlerForMsgType exampleDHT 0 = Some h
      \<and> h ''ctx'' ''QmPeer'' ?put = (None, Some (OtherError ''no record''))"
    by (simp add: example_defs)
  then obtain hb where hb: "handlerForMsgType exampleDHT 0 = Some hb"
    "hb ''ctx'' ''QmPeer'' ?put = (None, Some (OtherError ''no record''))"
    by blast
  then have hb': "handlerForMsgType exampleDHT (msgType ?put) = Some hb"
    "hb (ctx exampleDHT) (remotePeer ?B) ?put = (None, Some (OtherError ''no record''))"
    by (simp_all add: example_defs)
  have b_t: "typeString exampleDHT 0 = ''PUT_VALUE''" by (simp add: example_defs)
  from dispatch_failure_aborts[OF b_in] hb' b_t have b_out:
    "\<exists>w'. iteration exampleDHT ?B = Some (Return False w')
       \<and> loop exampleDHT ?B = Some (False, w')
       \<and> filter (isAdd ReceivedMessageErrors) (added ?B w')
            = [EvAdd ReceivedMessageErrors 1 ''PUT_VALUE'']
       \<and> filter isDelivered (added ?B w') = []"
    by fastforce
  have c_in: "modes ?C = modeServer # []" "incoming ?C = ([5], None) # []"
    "Unmarshal exampleDHT [5] = Inr ?ping"
    by (simp_all add: example_defs)
  have c_h: "\<exists>h. handlerForMsgType exampleDHT 5 = Some h
      \<and> h ''ctx'' ''QmPeer'' ?ping = (Some ?ping, None)"
    by (simp add: example_defs)
  then obtain hc where hc: "handlerForMsgType exampleDHT 5 = Some hc"
    "hc ''ctx'' ''QmPeer'' ?ping = (Some ?ping, None)"
    by blast
  then have hc': "handlerForMsgType exampleDHT (msgType ?ping) = Some hc"
    "hc (ctx exampleDHT) (remotePeer ?C) ?ping = (Some ?ping, None)"
    by (simp_all add: example_defs)
  have c_w: "writeResults ?C = Some (OtherError ''stream reset'') # []"
    by (simp add: example_defs)
  have c_t: "typeString exampleDHT 5 = ''PING''" by (simp add: example_defs)
  from dispatch_failure_aborts[OF c_in] hc' c_w c_t have c_out:
    "\<exists>w'. iteration exampleDHT ?C = Some (Return False w')
       \<and> loop exampleDHT ?C = Some (False, w')
       \<and> filter (isAdd ReceivedMessageErrors) (added ?C w') = [EvAdd ReceivedMessageErrors 1 ''PING'']
       \<and> filter isDelivered (added ?C w') = []"
    by fastforce
  from a_h a a_w hb b_out hc c_w c_out show ?thesis by blast
qed

text \<open>
  Claim C9. Let the handler return no error. If it returns no response, the pass makes
  no write and records no latency, and the loop runs the next pass. If it returns a
  response, whatever its content, the pass calls \<^verbatim>\<open>WriteMsg\<close> on it exactly once; when
  that write succeeds the pass records exactly one latency sample, tagged with the name
  of the message's type, and the loop runs the next pass. In both cases the next pass
  is run on the same stream, the remaining frames still to be read: with an answer left
  in each script it has an outcome, and the loop returns what it returns or goes on
  from where it continues; in server mode it reads the next frame; if the node has left
  server mode the loop returns \<open>False\<close> without reading, and if the next read fails the
  loop returns right after it, \<open>True\<close> exactly for \<^verbatim>\<open>io.EOF\<close>. (With no answer left in
  the script of write results a pass that has a response is blocked in the write: it
  does not skip it.)
\<close>

theorem response_write:
  assumes "modes w = modeServer # ms" and "incoming w = (msgbytes, None) # rs"
    and "Unmarshal dht msgbytes = Inr req"
    and "handlerForMsgType dht (msgType req) = Some h"
    and "h (ctx dht) (remotePeer w) req = (r, None)"
  shows "(r = None \<longrightarrow>
            (\<exists>w'. iteration dht w = Some (Continue w') \<and> loop dht w = loop dht w'
               \<and> filter isWrite (added w w') = [] \<and> filter isLatency (added w w') = []
               \<and> modes w' = ms \<and> incoming w' = rs \<and> writeResults w' = writeResults w
               \<and> (\<forall>out2. iteration dht w' = Some out2 \<longrightarrow>
            (\<forall>ms' r rs'. modes w' = modeServer # ms' \<and> incoming w' = r # rs' \<longrightarrow>
               filter isRead (added w' (worldOf out2)) = [EvReadMsg (fst r) (snd r)]
               \<and> incoming (worldOf out2) = rs')
          \<and> (\<forall>b wf. out2 = Return b wf \<longrightarrow> loop dht w = Some (b, wf))
          \<and> (\<forall>w2. out2 = Continue w2 \<longrightarrow> loop dht w = loop dht w2))
       \<and> (modes w' \<noteq> [] \<and> incoming w' \<noteq> [] \<and> writeResults w' \<noteq> [] \<longrightarrow>
            (\<exists>out2. iteration dht w' = Some out2))
       \<and> (\<forall>m ms'. modes w' = m # ms' \<and> m \<noteq> modeServer \<longrightarrow>
            (\<exists>wf. loop dht w = Some (False, wf) \<and> incoming wf = incoming w'
               \<and> filter isRead (added w' wf) = []))
       \<and> (\<forall>ms' bs2 err rs'. modes w' = modeServer # ms' \<and> incoming w' = (bs2, Some err) # rs' \<longrightarrow>
            (\<exists>wf. loop dht w = Some (err = io_EOF, wf) \<and> incoming wf = rs'
               \<and> filter isRead (added w' wf) = [EvReadMsg bs2 (Some err)]))))
       \<and> (\<forall>resp wr ws. r = Some resp \<and> writeResults w = wr # ws \<longrightarrow>
            (\<exists>out. iteration dht w = Some out
               \<and> filter isWrite (added w (worldOf out)) = [EvWriteMsg resp wr]
               \<and> (wr = None \<longrightarrow>
                    (\<exists>w'. out = Continue w' \<and> loop dht w = loop dht w'
                       \<and> filter isLatency (added w w') =
                            [EvLatencyRecord (typeString dht (msgType req))]
                       \<and> modes w' = ms \<and> incoming w' = rs \<and> writeResults w' = ws
                       \<and> (\<forall>out2. iteration dht w' = Some out2 \<longrightarrow>
            (\<forall>ms' r rs'. modes w' = modeServer # ms' \<and> incoming w' = r # rs' \<longrightarrow>
               filter isRead (added w' (worldOf out2)) = [EvReadMsg (fst r) (snd r)]
               \<and> incoming (worldOf out2) = rs')
          \<and> (\<forall>b wf. out2 = Return b wf \<longrightarrow> loop dht w = Some (b, wf))
          \<and> (\<forall>w2. out2 = Continue w2 \<longrightarrow> loop dht w = loop dht w2))
       \<and> (modes w' \<noteq> [] \<and> incoming w' \<noteq> [] \<and> writeResults w' \<noteq> [] \<longrightarrow>
            (\<exists>out2. iteration dht w' = Some out2))
       \<and> (\<forall>m ms'. modes w' = m # ms' \<and> m \<noteq> modeServer \<longrightarrow>
            (\<exists>wf. loop dht w = Some (False, wf) \<and> incoming wf = incoming w'
               \<and> filter isRead (added w' wf) = []))
       \<and> (\<forall>ms' bs2 err rs'. modes w' = modeServer # ms' \<and> incoming w' = (bs2, Some err) # rs' \<longrightarrow>
            (\<exists>wf. loop dht w = Some (err = io_EOF, wf) \<and> incoming wf = rs'
               \<and> filter isRead (added w' wf) = [EvReadMsg bs2 (Some err)]))))))
       \<and> (\<forall>resp. r = Some resp \<and> writeResults w = [] \<longrightarrow> iteration dht w = None)"
proof -
  from iteration_decoded[OF assms(1-3)] obtain w2 where
    w2: "iteration dht w = serveRequest dht (int (length msgbytes)) req w2"
      "trace w2 = trace w @
        [EvGetMode modeServer, EvReadMsg msgbytes None, EvUnmarshal msgbytes True,
         EvReleaseMsg msgbytes]"
      "modes w2 = ms" "incoming w2 = rs"
      "writeResults w2 = writeResults w" "remotePeer w2 = remotePeer w"
    by blast
  have one: "\<exists>w'. iteration dht w = Some (Continue w') \<and> loop dht w = loop dht w'
               \<and> filter isWrite (added w w') = [] \<and> filter isLatency (added w w') = []
               \<and> modes w' = ms \<and> incoming w' = rs \<and> writeResults w' = writeResults w
               \<and> (\<forall>out2. iteration dht w' = Some out2 \<longrightarrow>
            (\<forall>ms' r rs'. modes w' = modeServer # ms' \<and> incoming w' = r # rs' \<longrightarrow>
               filter isRead (added w' (worldOf out2)) = [EvReadMsg (fst r) (snd r)]
               \<and> incoming (worldOf out2) = rs')
          \<and> (\<forall>b wf. out2 = Return b wf \<longrightarrow> loop dht w = Some (b, wf))
          \<and> (\<forall>w2. out2 = Continue w2 \<longrightarrow> loop dht w = loop dht w2))
       \<and> (modes w' \<noteq> [] \<and> incoming w' \<noteq> [] \<and> writeResults w' \<noteq> [] \<longrightarrow>
            (\<exists>out2. iteration dht w' = Some out2))
       \<and> (\<forall>m ms'. modes w' = m # ms' \<and> m \<noteq> modeServer \<longrightarrow>
            (\<exists>wf. loop dht w = Some (False, wf) \<and> incoming wf = incoming w'
               \<and> filter isRead (added w' wf) = []))
       \<and> (\<forall>ms' bs2 err rs'. modes w' = modeServer # ms' \<and> incoming w' = (bs2, Some err) # rs' \<longrightarrow>
            (\<exists>wf. loop dht w = Some (err = io_EOF, wf) \<and> incoming wf = rs'
               \<and> filter isRead (added w' wf) = [EvReadMsg bs2 (Some err)]))"
    if "r = None"
  proof -
    from serve_no_response[OF assms(4), of w2 "int (length msgbytes)"] assms(5) w2 that
    obtain w' where w': "iteration dht w = Some (Continue w')"
      "filter isWrite (added w w') = []" "filter isLatency (added w w') = []"
      "modes w' = ms" "incoming w' = rs" "writeResults w' = writeResults w"
      by (auto simp: added_append)
    note on = loop_goes_on[OF w'(1)]
    from w'(1) loop_Continue[OF w'(1)] w'(2-6)
      on[THEN conjunct1] on[THEN conjunct2, THEN conjunct1]
      on[THEN conjunct2, THEN conjunct2, THEN conjunct1]
      on[THEN conjunct2, THEN conjunct2, THEN conjunct2]
    show ?thesis by (intro exI[of _ w'] conjI) assumption+
  qed
  have two: "\<exists>out. iteration dht w = Some out
               \<and> filter isWrite (added w (worldOf out)) = [EvWriteMsg resp wr]
               \<and> (wr = None \<longrightarrow>
                    (\<exists>w'. out = Continue w' \<and> loop dht w = loop dht w'
                       \<and> filter isLatency (added w w') =
                            [EvLatencyRecord (typeString dht (msgType req))]
                       \<and> modes w' = ms \<and> incoming w' = rs \<and> writeResults w' = ws
                       \<and> (\<forall>out2. iteration dht w' = Some out2 \<longrightarrow>
            (\<forall>ms' r rs'. modes w' = modeServer # ms' \<and> incoming w' = r # rs' \<longrightarrow>
               filter isRead (added w' (worldOf out2)) = [EvReadMsg (fst r) (snd r)]
               \<and> incoming (worldOf out2) = rs')
          \<and> (\<forall>b wf. out2 = Return b wf \<longrightarrow> loop dht w = Some (b, wf))
          \<and> (\<forall>w2. out2 = Continue w2 \<longrightarrow> loop dht w = loop dht w2))
       \<and> (modes w' \<noteq> [] \<and> incoming w' \<noteq> [] \<and> writeResults w' \<noteq> [] \<longrightarrow>
            (\<exists>out2. iteration dht w' = Some out2))
       \<and> (\<forall>m ms'. modes w' = m # ms' \<and> m \<noteq> modeServer \<longrightarrow>
            (\<exists>wf. loop dht w = Some (False, wf) \<and> incoming wf = incoming w'
               \<and> filter isRead (added w' wf) = []))
       \<and> (\<forall>ms' bs2 err rs'. modes w' = modeServer # ms' \<and> incoming w' = (bs2, Some err) # rs' \<longrightarrow>
            (\<exists>wf. loop dht w = Some (err = io_EOF, wf) \<and> incoming wf = rs'
               \<and> filter isRead (added w' wf) = [EvReadMsg bs2 (Some err)]))))"
    if "r = Some resp \<and> writeResults w = wr # ws" for resp wr ws
  proof (cases wr)
    case None
    from serve_write_ok[OF assms(4), of w2 resp ws "int (length msgbytes)"] assms(5) w2 that None
    obtain w' where w': "iteration dht w = Some (Continue w')"
      "filter isWrite (added w w') = [EvWriteMsg resp wr]"
      "filter isLatency (added w w') = [EvLatencyRecord (typeString dht (msgType req))]"
      "modes w' = ms" "incoming w' = rs" "writeResults w' = ws"
      by (auto simp: added_append)
    note on = loop_goes_on[OF w'(1)]
    from loop_Continue[OF w'(1)] w'(3-6)
      on[THEN conjunct1] on[THEN conjunct2, THEN conjunct1]
      on[THEN conjunct2, THEN conjunct2, THEN conjunct1]
      on[THEN conjunct2, THEN conjunct2, THEN conjunct2]
    have inner: "\<exists>w''. Continue w' = Continue w'' \<and> loop dht w = loop dht w''
                       \<and> filter isLatency (added w w'') =
                            [EvLatencyRecord (typeString dht (msgType req))]
                       \<and> modes w'' = ms \<and> incoming w'' = rs \<and> writeResults w'' = ws
                       \<and> (\<forall>out2. iteration dht w'' = Some out2 \<longrightarrow>
            (\<forall>ms' r rs'. modes w'' = modeServer # ms' \<and> incoming w'' = r # rs' \<longrightarrow>
               filter isRead (added w'' (worldOf out2)) = [EvReadMsg (fst r) (snd r)]
               \<and> incoming (worldOf out2) = rs')
          \<and> (\<forall>b wf. out2 = Return b wf \<longrightarrow> loop dht w = Some (b, wf))
          \<and> (\<forall>w2. out2 = Continue w2 \<longrightarrow> loop dht w = loop dht w2))
       \<and> (modes w'' \<noteq> [] \<and> incoming w'' \<noteq> [] \<and> writeResults w'' \<noteq> [] \<longrightarrow>
            (\<exists>out2. iteration dht w'' = Some out2))
       \<and> (\<forall>m ms'. modes w'' = m # ms' \<and> m \<noteq> modeServer \<longrightarrow>
            (\<exists>wf. loop dht w = Some (False, wf) \<and> incoming wf = incoming w''
               \<and> filter isRead (added w'' wf) = []))
       \<and> (\<forall>ms' bs2 err rs'. modes w'' = modeServer # ms' \<and> incoming w'' = (bs2, Some err) # rs' \<longrightarrow>
            (\<exists>wf. loop dht w = Some (err = io_EOF, wf) \<and> incoming wf = rs'
               \<and> filter isRead (added w'' wf) = [EvReadMsg bs2 (Some err)]))"
      by (intro exI[of _ w'] conjI refl) assumption+
    have fw: "filter isWrite (added w (worldOf (Continue w'))) = [EvWriteMsg resp wr]"
      using w'(2) by simp
    from w'(1) fw inner show ?thesis
      by (intro exI[of _ "Continue w'"] conjI impI) assumption+
  next
    case (Some err)
    from serve_write_error[OF assms(4), of w2 resp err ws "int (length msgbytes)"]
      assms(5) w2 that Some
    show ?thesis by (auto simp: added_append)
  qed
  have three: "iteration dht w = None" if "r = Some resp \<and> writeResults w = []" for resp
    using iteration_blocked_write[OF assms(1-4), of resp] assms(5) that by simp
  show ?thesis
  proof (intro conjI allI impI)
    assume "r = None"
    then show "\<exists>w'. iteration dht w = Some (Continue w') \<and> loop dht w = loop dht w'
               \<and> filter isWrite (added w w') = [] \<and> filter isLatency (added w w') = []
               \<and> modes w' = ms \<and> incoming w' = rs \<and> writeResults w' = writeResults w
               \<and> (\<forall>out2. iteration dht w' = Some out2 \<longrightarrow>
            (\<forall>ms' r rs'. modes w' = modeServer # ms' \<and> incoming w' = r # rs' \<longrightarrow>
               filter isRead (added w' (worldOf out2)) = [EvReadMsg (fst r) (snd r)]
               \<and> incoming (worldOf out2) = rs')
          \<and> (\<forall>b wf. out2 = Return b wf \<longrightarrow> loop dht w = Some (b, wf))
          \<and> (\<forall>w2. out2 = Continue w2 \<longrightarrow> loop dht w = loop dht w2))
       \<and> (modes w' \<noteq> [] \<and> incoming w' \<noteq> [] \<and> writeResults w' \<noteq> [] \<longrightarrow>
            (\<exists>out2. iteration dht w' = Some out2))
       \<and> (\<forall>m ms'. modes w' = m # ms' \<and> m \<noteq> modeServer \<longrightarrow>
            (\<exists>wf. loop dht w = Some (False, wf) \<and> incoming wf = incoming w'
               \<and> filter isRead (added w' wf) = []))
       \<and> (\<forall>ms' bs2 err rs'. modes w' = modeServer # ms' \<and> incoming w' = (bs2, Some err) # rs' \<longrightarrow>
            (\<exists>wf. loop dht w = Some (err = io_EOF, wf) \<and> incoming wf = rs'
               \<and> filter isRead (added w' wf) = [EvReadMsg bs2 (Some err)]))"
      by (rule one)
  next
    fix resp wr ws
    assume "r = Some resp \<and> writeResults w = wr # ws"
    then show "\<exists>out. iteration dht w = Some out
               \<and> filter isWrite (added w (worldOf out)) = [EvWriteMsg resp wr]
               \<and> (wr = None \<longrightarrow>
                    (\<exists>w'. out = Continue w' \<and> loop dht w = loop dht w'
                       \<and> filter isLatency (added w w') =
                            [EvLatencyRecord (typeString dht (msgType req))]
                       \<and> modes w' = ms \<and> incoming w' = rs \<and> writeResults w' = ws
                       \<and> (\<forall>out2. iteration dht w' = Some out2 \<longrightarrow>
            (\<forall>ms' r rs'. modes w' = modeServer # ms' \<and> incoming w' = r # rs' \<longrightarrow>
               filter isRead (added w' (worldOf out2)) = [EvReadMsg (fst r) (snd r)]
               \<and> incoming (worldOf out2) = rs')
          \<and> (\<forall>b wf. out2 = Return b wf \<longrightarrow> loop dht w = Some (b, wf))
          \<and> (\<forall>w2. out2 = Continue w2 \<longrightarrow> loop dht w = loop dht w2))
       \<and> (modes w' \<noteq> [] \<and> incoming w' \<noteq> [] \<and> writeResults w' \<noteq> [] \<longrightarrow>
            (\<exists>out2. iteration dht w' = Some out2))
       \<and> (\<forall>m ms'. modes w' = m # ms' \<and> m \<noteq> modeServer \<longrightarrow>
            (\<exists>wf. loop dht w = Some (False, wf) \<and> incoming wf = incoming w'
               \<and> filter isRead (added w' wf) = []))
       \<and> (\<forall>ms' bs2 err rs'. modes w' = modeServer # ms' \<and> incoming w' = (bs2, Some err) # rs' \<longrightarrow>
            (\<exists>wf. loop dht w = Some (err = io_EOF, wf) \<and> incoming wf = rs'
               \<and> filter isRead (added w' wf) = [EvReadMsg bs2 (Some err)]))))"
      by (rule two)
  next
    fix resp
    assume "r = Some resp \<and> writeResults w = []"
    then show "iteration dht w = None" by (rule three)
  qed
qed

text \<open>
  Three streams: an \<^verbatim>\<open>ADD_PROVIDER\<close>, whose handler returns no response (nothing is
  written, the write result in the script is left), and a \<^verbatim>\<open>GET_VALUE\<close>, whose handler
  returns a response with every field empty (it is written and the latency recorded),
  each followed by the end of the stream, which the loop goes on to read before it
  returns \<open>True\<close>; and the same \<^verbatim>\<open>GET_VALUE\<close> with no write result in the script (the
  pass is blocked in the write).
\<close>

theorem response_write_witness:
  "(\<exists>h w' wf.
        modes (exampleStream [modeServer, modeServer] [([2, 8], None), ([], Some io_EOF)] [None])
          = modeServer # [modeServer]
        \<and> incoming (exampleStream [modeServer, modeServer]
             [([2, 8], None), ([], Some io_EOF)] [None])
          = ([2, 8], None) # [([], Some io_EOF)]
        \<and> Unmarshal exampleDHT [2, 8] = Inr \<lparr>msgType = 2, msgKey = [8], msgBody = []\<rparr>
        \<and> handlerForMsgType exampleDHT 2 = Some h
        \<and> h ''ctx'' ''QmPeer'' \<lparr>msgType = 2, msgKey = [8], msgBody = []\<rparr> = (None, None)
        \<and> iteration exampleDHT (exampleStream [modeServer, modeServer]
             [([2, 8], None), ([], Some io_EOF)] [None]) = Some (Continue w')
        \<and> filter isWrite (added (exampleStream [modeServer, modeServer]
             [([2, 8], None), ([], Some io_EOF)] [None]) w') = []
        \<and> filter isLatency (added (exampleStream [modeServer, modeServer]
             [([2, 8], None), ([], Some io_EOF)] [None]) w') = []
        \<and> writeResults w' = [None] \<and> incoming w' = [([], Some io_EOF)]
        \<and> loop exampleDHT (exampleStream [modeServer, modeServer]
             [([2, 8], None), ([], Some io_EOF)] [None]) = Some (True, wf)
        \<and> filter isRead (added w' wf) = [EvReadMsg [] (Some io_EOF)])
   \<and> (\<exists>h w' wf.
        modes (exampleStream [modeServer, modeServer] [([1, 8], None), ([], Some io_EOF)] [None])
          = modeServer # [modeServer]
        \<and> incoming (exampleStream [modeServer, modeServer]
             [([1, 8], None), ([], Some io_EOF)] [None])
          = ([1, 8], None) # [([], Some io_EOF)]
        \<and> Unmarshal exampleDHT [1, 8] = Inr \<lparr>msgType = 1, msgKey = [8], msgBody = []\<rparr>
        \<and> handlerForMsgType exampleDHT 1 = Some h
        \<and> h ''ctx'' ''QmPeer'' \<lparr>msgType = 1, msgKey = [8], msgBody = []\<rparr>
             = (Some \<lparr>msgType = 0, msgKey = [], msgBody = []\<rparr>, None)
        \<and> writeResults (exampleStream [modeServer, modeServer]
             [([1, 8], None), ([], Some io_EOF)] [None]) = None # []
        \<and> iteration exampleDHT (exampleStream [modeServer, modeServer]
             [([1, 8], None), ([], Some io_EOF)] [None]) = Some (Continue w')
        \<and> filter isWrite (added (exampleStream [modeServer, modeServer]
             [([1, 8], None), ([], Some io_EOF)] [None]) w')
             = [EvWriteMsg \<lparr>msgType = 0, msgKey = [], msgBody = []\<rparr> None]
        \<and> filter isLatency (added (exampleStream [modeServer, modeServer]
             [([1, 8], None), ([], Some io_EOF)] [None]) w')
             = [EvLatencyRecord ''GET_VALUE'']
        \<and> writeResults w' = [] \<and> incoming w' = [([], Some io_EOF)]
        \<and> loop exampleDHT (exampleStream [modeServer, modeServer]
             [([1, 8], None), ([], Some io_EOF)] [None]) = Some (True, wf)
        \<and> filter isRead (added w' wf) = [EvReadMsg [] (Some io_EOF)])
   \<and> writeResults (exampleStream [modeServer] [([1, 8], None)] []) = []
   \<and> iteration exampleDHT (exampleStream [modeServer] [([1, 8], None)] []) = None"
proof -
  let ?A = "exampleStream [modeServer, modeServer] [([2, 8], None), ([], Some io_EOF)] [None]"
  let ?B = "exampleStream [modeServer, modeServer] [([1, 8], None), ([], Some io_EOF)] [None]"
  let ?C = "exampleStream [modeServer] [([1, 8], None)] []"
  let ?add = "\<lparr>msgType = 2, msgKey = [8], msgBody = []\<rparr>"
  let ?get = "\<lparr>msgType = 1, msgKey = [8], msgBody = []\<rparr>"
  let ?empty = "\<lparr>msgType = 0, msgKey = [], msgBody = []\<rparr>"
  have a_in: "modes ?A = modeServer # [modeServer]"
    "incoming ?A = ([2, 8], None) # [([], Some io_EOF)]"
    "Unmarshal exampleDHT [2, 8] = Inr ?add"
    by (simp_all add: example_defs)
  have "\<exists>h. handlerForMsgType exampleDHT 2 = Some h \<and> h ''ctx'' ''QmPeer'' ?add = (None, None)"
    by (simp add: example_defs)
  then obtain ha where ha: "handlerForMsgType exampleDHT 2 = Some ha"
    "ha ''ctx'' ''QmPeer'' ?add = (None, None)"
    by blast
  then have ha': "handlerForMsgType exampleDHT (msgType ?add) = Some ha"
    "ha (ctx exampleDHT) (remotePeer ?A) ?add = (None, None)"
    by (simp_all add: example_defs)
  have a_w: "writeResults ?A = [None]" by (simp add: example_defs)
  from response_write[OF a_in ha', THEN conjunct1, rule_format, OF refl]
  obtain wa where wa: "iteration exampleDHT ?A = Some (Continue wa)"
    "filter isWrite (added ?A wa) = []" "filter isLatency (added ?A wa) = []"
    "modes wa = [modeServer]" "incoming wa = [([], Some io_EOF)]"
    "writeResults wa = writeResults ?A"
    and ona: "\<forall>ms' bs2 err rs'. modes wa = modeServer # ms'
            \<and> incoming wa = (bs2, Some err) # rs' \<longrightarrow>
            (\<exists>wf. loop exampleDHT ?A = Some (err = io_EOF, wf) \<and> incoming wf = rs'
               \<and> filter isRead (added wa wf) = [EvReadMsg bs2 (Some err)])"
    by (elim exE conjE)
  from ona[rule_format, of "[]" "[]" io_EOF "[]"] wa(4,5) obtain wfa where
    wfa: "loop exampleDHT ?A = Some (True, wfa)"
      "filter isRead (added wa wfa) = [EvReadMsg [] (Some io_EOF)]"
    by auto
  have A: "\<exists>h w' wf. modes ?A = modeServer # [modeServer]
        \<and> incoming ?A = ([2, 8], None) # [([], Some io_EOF)]
        \<and> Unmarshal exampleDHT [2, 8] = Inr ?add
        \<and> handlerForMsgType exampleDHT 2 = Some h
        \<and> h ''ctx'' ''QmPeer'' ?add = (None, None)
        \<and> iteration exampleDHT ?A = Some (Continue w')
        \<and> filter isWrite (added ?A w') = [] \<and> filter isLatency (added ?A w') = []
        \<and> writeResults w' = [None] \<and> incoming w' = [([], Some io_EOF)]
        \<and> loop exampleDHT ?A = Some (True, wf)
        \<and> filter isRead (added w' wf) = [EvReadMsg [] (Some io_EOF)]"
    using a_in ha wa a_w wfa by (intro exI[of _ ha] exI[of _ wa] exI[of _ wfa]) simp
  have b_in: "modes ?B = modeServer # [modeServer]"
    "incoming ?B = ([1, 8], None) # [([], Some io_EOF)]"
    "Unmarshal exampleDHT [1, 8] = Inr ?get"
    by (simp_all add: example_defs)
  have "\<exists>h. handlerForMsgType exampleDHT 1 = Some h
      \<and> h ''ctx'' ''QmPeer'' ?get = (Some ?empty, None)"
    by (simp add: example_defs)
  then obtain hb where hb: "handlerForMsgType exampleDHT 1 = Some hb"
    "hb ''ctx'' ''QmPeer'' ?get = (Some ?empty, None)"
    by blast
  then have hb': "handlerForMsgType exampleDHT (msgType ?get) = Some hb"
    "hb (ctx exampleDHT) (remotePeer ?B) ?get = (Some ?empty, None)"
    by (simp_all add: example_defs)
  have b_w: "writeResults ?B = None # []" by (simp add: example_defs)
  have b_pre: "Some ?empty = Some ?empty \<and> writeResults ?B = None # []"
    using b_w by simp
  have b_t: "typeString exampleDHT (msgType ?get) = ''GET_VALUE''" by (simp add: example_defs)
  from response_write[OF b_in hb', THEN conjunct2, THEN conjunct1, rule_format, OF b_pre]
  obtain out where out: "iteration exampleDHT ?B = Some out"
    "filter isWrite (added ?B (worldOf out)) = [EvWriteMsg ?empty None]"
    and rest: "None = (None :: error option) \<longrightarrow>
       (\<exists>w'. out = Continue w' \<and> loop exampleDHT ?B = loop exampleDHT w'
          \<and> filter isLatency (added ?B w') =
               [EvLatencyRecord (typeString exampleDHT (msgType ?get))]
          \<and> modes w' = [modeServer] \<and> incoming w' = [([], Some io_EOF)]
          \<and> writeResults w' = []
          \<and> (\<forall>out2. iteration exampleDHT w' = Some out2 \<longrightarrow>
            (\<forall>ms' r rs'. modes w' = modeServer # ms' \<and> incoming w' = r # rs' \<longrightarrow>
               filter isRead (added w' (worldOf out2)) = [EvReadMsg (fst r) (snd r)]
               \<and> incoming (worldOf out2) = rs')
          \<and> (\<forall>b wf. out2 = Return b wf \<longrightarrow> loop exampleDHT ?B = Some (b, wf))
          \<and> (\<forall>w2. out2 = Continue w2 \<longrightarrow> loop exampleDHT ?B = loop exampleDHT w2))
       \<and> (modes w' \<noteq> [] \<and> incoming w' \<noteq> [] \<and> writeResults w' \<noteq> [] \<longrightarrow>
            (\<exists>out2. iteration exampleDHT w' = Some out2))
       \<and> (\<forall>m ms'. modes w' = m # ms' \<and> m \<noteq> modeServer \<longrightarrow>
            (\<exists>wf. loop exampleDHT ?B = Some (False, wf) \<and> incoming wf = incoming w'
               \<and> filter isRead (added w' wf) = []))
       \<and> (\<forall>ms' bs2 err rs'. modes w' = modeServer # ms' \<and> incoming w' = (bs2, Some err) # rs' \<longrightarrow>
            (\<exists>wf. loop exampleDHT ?B = Some (err = io_EOF, wf) \<and> incoming wf = rs'
               \<and> filter isRead (added w' wf) = [EvReadMsg bs2 (Some err)])))"
    by (elim exE conjE)
  from rest[rule_format, OF refl] obtain wb where wb: "out = Continue wb"
    "filter isLatency (added ?B wb) = [EvLatencyRecord (typeString exampleDHT (msgType ?get))]"
    "modes wb = [modeServer]" "incoming wb = [([], Some io_EOF)]" "writeResults wb = []"
    and onb: "\<forall>ms' bs2 err rs'. modes wb = modeServer # ms'
            \<and> incoming wb = (bs2, Some err) # rs' \<longrightarrow>
            (\<exists>wf. loop exampleDHT ?B = Some (err = io_EOF, wf) \<and> incoming wf = rs'
               \<and> filter isRead (added wb wf) = [EvReadMsg bs2 (Some err)])"
    by (elim exE conjE)
  from onb[rule_format, of "[]" "[]" io_EOF "[]"] wb(3,4) obtain wfb where
    wfb: "loop exampleDHT ?B = Some (True, wfb)"
      "filter isRead (added wb wfb) = [EvReadMsg [] (Some io_EOF)]"
    by auto
  have B: "\<exists>h w' wf. modes ?B = modeServer # [modeServer]
        \<and> incoming ?B = ([1, 8], None) # [([], Some io_EOF)]
        \<and> Unmarshal exampleDHT [1, 8] = Inr ?get
        \<and> handlerForMsgType exampleDHT 1 = Some h
        \<and> h ''ctx'' ''QmPeer'' ?get = (Some ?empty, None)
        \<and> writeResults ?B = None # []
        \<and> iteration exampleDHT ?B = Some (Continue w')
        \<and> filter isWrite (added ?B w') = [EvWriteMsg ?empty None]
        \<and> filter isLatency (added ?B w') = [EvLatencyRecord ''GET_VALUE'']
        \<and> writeResults w' = [] \<and> incoming w' = [([], Some io_EOF)]
        \<and> loop exampleDHT ?B = Some (True, wf)
        \<and> filter isRead (added w' wf) = [EvReadMsg [] (Some io_EOF)]"
    using b_in hb b_w out wb b_t wfb
    by (intro exI[of _ hb] exI[of _ wb] exI[of _ wfb]) simp
  have c_in: "modes ?C = modeServer # []" "incoming ?C = ([1, 8], None) # []"
    "Unmarshal exampleDHT [1, 8] = Inr ?get"
    by (simp_all add: example_defs)
  from hb have hc': "handlerForMsgType exampleDHT (msgType ?get) = Some hb"
    "hb (ctx exampleDHT) (remotePeer ?C) ?get = (Some ?empty, None)"
    by (simp_all add: example_defs)
  have c_w: "writeResults ?C = []" by (simp add: example_defs)
  have c_pre: "Some ?empty = Some ?empty \<and> writeResults ?C = []" using c_w by simp
  from response_write[OF c_in hc', THEN conjunct2, THEN conjunct2, rule_format, OF c_pre]
  have c_out: "iteration exampleDHT ?C = None" .
  from A B c_w c_out show ?thesis by (intro conjI) assumption+
qed

subsection \<open>The error counter over a whole session\<close>

text \<open>
  Claim C10. Let a session return. What it appended to the trace splits at its last mode
  check into the passes before (\<open>pre\<close>) and the last pass (\<open>fin\<close>, which holds no further
  mode check). \<^verbatim>\<open>ReceivedMessageErrors\<close> is not incremented in \<open>pre\<close>, and at most once in
  the session. When it is incremented the session returns \<open>False\<close> and, after the
  increment, the session only increments \<^verbatim>\<open>ReceivedBytes\<close>, writes a debug line and stops
  the timer before it returns. A session whose last mode check is not \<open>modeServer\<close>, or
  whose last pass reads \<^verbatim>\<open>io.EOF\<close>, or reads an error with an empty buffer, does not
  increment the error counter at all.
\<close>

theorem error_counter_once:
  assumes "handleNewMessage dht w = Some (b, w')"
  shows "\<exists>pre m fin. added w w' = pre @ EvGetMode m # fin
           \<and> filter isGetMode fin = []
           \<and> filter (isAdd ReceivedMessageErrors) pre = []
           \<and> length (filter (isAdd ReceivedMessageErrors) (added w w')) \<le> 1
           \<and> (filter (isAdd ReceivedMessageErrors) (added w w') \<noteq> [] \<longrightarrow>
                \<not> b \<and> (\<exists>fin1 a fin2. fin = fin1 @ EvAdd ReceivedMessageErrors 1 a # fin2
                         \<and> (\<forall>e\<in>set fin2. isEpilogue e)))
           \<and> (m \<noteq> modeServer \<longrightarrow> filter (isAdd ReceivedMessageErrors) (added w w') = [])
           \<and> (\<forall>msgbytes. EvReadMsg msgbytes (Some io_EOF) \<in> set fin \<longrightarrow>
                filter (isAdd ReceivedMessageErrors) (added w w') = [])
           \<and> (\<forall>err. EvReadMsg [] (Some err) \<in> set fin \<longrightarrow>
                filter (isAdd ReceivedMessageErrors) (added w w') = [])"
proof -
  from assms obtain w1 where
    l: "loop dht (emit (EvTimerAfterFunc dhtStreamIdleTimeout) w) = Some (b, w1)"
    and w': "w' = emit EvTimerStop w1"
    by (auto simp: handleNewMessage_def split: option.splits)
  from loop_final_pass[OF l] obtain pre wn where
    pre: "trace wn = trace (emit (EvTimerAfterFunc dhtStreamIdleTimeout) w) @ pre"
      "filter (isAdd ReceivedMessageErrors) pre = []"
      "iteration dht wn = Some (Return b w1)"
    by blast
  from final_pass_errors[OF pre(3)] obtain m fin where
    fin: "trace w1 = trace wn @ EvGetMode m # fin"
      "filter isGetMode fin = []"
      "length (filter (isAdd ReceivedMessageErrors) fin) \<le> 1"
      "filter (isAdd ReceivedMessageErrors) fin \<noteq> [] \<longrightarrow>
         \<not> b \<and> (\<exists>fin1 a fin2. fin = fin1 @ EvAdd ReceivedMessageErrors 1 a # fin2
                  \<and> (\<forall>e\<in>set fin2. isEpilogue e))"
      "m \<noteq> modeServer \<longrightarrow> filter (isAdd ReceivedMessageErrors) fin = []"
      "\<forall>msgbytes. EvReadMsg msgbytes (Some io_EOF) \<in> set fin \<longrightarrow>
         filter (isAdd ReceivedMessageErrors) fin = []"
      "\<forall>err. EvReadMsg [] (Some err) \<in> set fin \<longrightarrow>
         filter (isAdd ReceivedMessageErrors) fin = []"
    by blast
  let ?pre = "EvTimerAfterFunc dhtStreamIdleTimeout # pre"
  let ?fin = "fin @ [EvTimerStop]"
  from w' pre(1) fin(1) have a: "added w w' = ?pre @ EvGetMode m # ?fin"
    by (simp add: added_append)
  have errs: "filter (isAdd ReceivedMessageErrors) (added w w')
      = filter (isAdd ReceivedMessageErrors) fin"
    using a pre(2) by simp
  have 1: "filter isGetMode ?fin = []" using fin(2) by simp
  have 2: "filter (isAdd ReceivedMessageErrors) ?pre = []" using pre(2) by simp
  have 3: "length (filter (isAdd ReceivedMessageErrors) (added w w')) \<le> 1"
    using errs fin(3) by simp
  have 4: "filter (isAdd ReceivedMessageErrors) (added w w') \<noteq> [] \<longrightarrow>
      \<not> b \<and> (\<exists>fin1 a fin2. ?fin = fin1 @ EvAdd ReceivedMessageErrors 1 a # fin2
               \<and> (\<forall>e\<in>set fin2. isEpilogue e))"
  proof
    assume "filter (isAdd ReceivedMessageErrors) (added w w') \<noteq> []"
    with errs fin(4) obtain fin1 a fin2 where
      nb: "\<not> b" and f: "fin = fin1 @ EvAdd ReceivedMessageErrors 1 a # fin2"
      and ep: "\<forall>e\<in>set fin2. isEpilogue e"
      by auto
    from f have "?fin = fin1 @ EvAdd ReceivedMessageErrors 1 a # (fin2 @ [EvTimerStop])"
      by simp
    moreover from ep have "\<forall>e\<in>set (fin2 @ [EvTimerStop]). isEpilogue e" by simp
    ultimately show "\<not> b \<and> (\<exists>fin1 a fin2. ?fin = fin1 @ EvAdd ReceivedMessageErrors 1 a # fin2
               \<and> (\<forall>e\<in>set fin2. isEpilogue e))"
      using nb by blast
  qed
  have 5: "m \<noteq> modeServer \<longrightarrow> filter (isAdd ReceivedMessageErrors) (added w w') = []"
    using errs fin(5) by simp
  have 6: "\<forall>msgbytes. EvReadMsg msgbytes (Some io_EOF) \<in> set ?fin \<longrightarrow>
      filter (isAdd ReceivedMessageErrors) (added w w') = []"
    using errs fin(6) by simp
  have 7: "\<forall>err. EvReadMsg [] (Some err) \<in> set ?fin \<longrightarrow>
      filter (isAdd ReceivedMessageErrors) (added w w') = []"
    using errs fin(7) by simp
  from a 1 2 3 4 5 6 7 show ?thesis by blast
qed

text \<open>
  Four sessions: one answers a \<^verbatim>\<open>PING\<close> and then meets a type without handler (one
  increment, in the last pass); one starts outside server mode, one reads \<^verbatim>\<open>io.EOF\<close>,
  one reads an error with an empty buffer (no increment).
\<close>

theorem error_counter_once_witness:
  "(\<exists>w'. handleNewMessage exampleDHT
           (exampleStream [modeServer, modeServer] [([5], None), ([7], None)] [None])
           = Some (False, w')
      \<and> filter (isAdd ReceivedMessageErrors)
           (added (exampleStream [modeServer, modeServer] [([5], None), ([7], None)] [None]) w')
           = [EvAdd ReceivedMessageErrors 1 ''OTHER'']
      \<and> (\<exists>pre m fin.
            added (exampleStream [modeServer, modeServer] [([5], None), ([7], None)] [None]) w'
              = pre @ EvGetMode m # fin
            \<and> filter isGetMode fin = []
            \<and> filter (isAdd ReceivedMessageErrors) pre = []
            \<and> (\<exists>fin1 a fin2. fin = fin1 @ EvAdd ReceivedMessageErrors 1 a # fin2
                  \<and> (\<forall>e\<in>set fin2. isEpilogue e))))
   \<and> (\<exists>w'. handleNewMessage exampleDHT (exampleStream [modeClient] [([5], None)] [None])
           = Some (False, w')
      \<and> (\<exists>pre m fin.
            added (exampleStream [modeClient] [([5], None)] [None]) w' = pre @ EvGetMode m # fin
            \<and> filter isGetMode fin = [] \<and> m \<noteq> modeServer)
      \<and> filter (isAdd ReceivedMessageErrors)
           (added (exampleStream [modeClient] [([5], None)] [None]) w') = [])
   \<and> (\<exists>w'. handleNewMessage exampleDHT (exampleStream [modeServer] [([], Some io_EOF)] [])
           = Some (True, w')
      \<and> (\<exists>pre m fin.
            added (exampleStream [modeServer] [([], Some io_EOF)] []) w' = pre @ EvGetMode m # fin
            \<and> filter isGetMode fin = []
            \<and> EvReadMsg [] (Some io_EOF) \<in> set fin)
      \<and> filter (isAdd ReceivedMessageErrors)
           (added (exampleStream [modeServer] [([], Some io_EOF)] []) w') = [])
   \<and> (\<exists>w'. handleNewMessage exampleDHT
           (exampleStream [modeServer] [([], Some (OtherError ''stream reset''))] [])
           = Some (False, w')
      \<and> (\<exists>pre m fin.
            added (exampleStream [modeServer] [([], Some (OtherError ''stream reset''))] []) w'
              = pre @ EvGetMode m # fin
            \<and> filter isGetMode fin = []
            \<and> EvReadMsg [] (Some (OtherError ''stream reset'')) \<in> set fin)
      \<and> filter (isAdd ReceivedMessageErrors)
           (added (exampleStream [modeServer] [([], Some (OtherError ''stream reset''))] []) w')
           = [])"
proof -
  let ?A = "exampleStream [modeServer, modeServer] [([5], None), ([7], None)] [None]"
  let ?B = "exampleStream [modeClient] [([5], None)] [None]"
  let ?C = "exampleStream [modeServer] [([], Some io_EOF)] []"
  let ?D = "exampleStream [modeServer] [([], Some (OtherError ''stream reset''))] []"
  have "\<exists>w'. handleNewMessage exampleDHT ?A = Some (False, w')
      \<and> filter (isAdd ReceivedMessageErrors) (added ?A w')
           = [EvAdd ReceivedMessageErrors 1 ''OTHER'']"
    by (simp add: run_defs example_defs added_def)
  then obtain a where a: "handleNewMessage exampleDHT ?A = Some (False, a)"
    "filter (isAdd ReceivedMessageErrors) (added ?A a) = [EvAdd ReceivedMessageErrors 1 ''OTHER'']"
    by blast
  from error_counter_once[OF a(1)] a have A:
    "\<exists>w'. handleNewMessage exampleDHT ?A = Some (False, w')
      \<and> filter (isAdd ReceivedMessageErrors) (added ?A w')
           = [EvAdd ReceivedMessageErrors 1 ''OTHER'']
      \<and> (\<exists>pre m fin. added ?A w' = pre @ EvGetMode m # fin
            \<and> filter isGetMode fin = []
            \<and> filter (isAdd ReceivedMessageErrors) pre = []
            \<and> (\<exists>fin1 a fin2. fin = fin1 @ EvAdd ReceivedMessageErrors 1 a # fin2
                  \<and> (\<forall>e\<in>set fin2. isEpilogue e)))"
    by fastforce
  have "\<exists>w'. handleNewMessage exampleDHT ?B = Some (False, w')
      \<and> added ?B w' = [EvTimerAfterFunc dhtStreamIdleTimeout, EvGetMode modeClient, EvTimerStop]"
    by (simp add: run_defs example_defs added_def)
  then obtain b where b: "handleNewMessage exampleDHT ?B = Some (False, b)"
    "added ?B b = [EvTimerAfterFunc dhtStreamIdleTimeout, EvGetMode modeClient, EvTimerStop]"
    by blast
  from error_counter_once[OF b(1)] obtain pre m fin where
    fb: "added ?B b = pre @ EvGetMode m # fin" "filter isGetMode fin = []"
      "m \<noteq> modeServer \<longrightarrow> filter (isAdd ReceivedMessageErrors) (added ?B b) = []"
    by blast
  from fb(1,2) b(2) have "m \<noteq> modeServer"
    by (auto simp: append_eq_Cons_conv Cons_eq_append_conv)
  with fb b(1) have B:
    "\<exists>w'. handleNewMessage exampleDHT ?B = Some (False, w')
      \<and> (\<exists>pre m fin. added ?B w' = pre @ EvGetMode m # fin
            \<and> filter isGetMode fin = [] \<and> m \<noteq> modeServer)
      \<and> filter (isAdd ReceivedMessageErrors) (added ?B w') = []"
    by blast
  have "\<exists>w'. handleNewMessage exampleDHT ?C = Some (True, w')
      \<and> added ?C w' = [EvTimerAfterFunc dhtStreamIdleTimeout, EvGetMode modeServer,
           EvReadMsg [] (Some io_EOF), EvReleaseMsg [], EvTimerStop]"
    by (simp add: run_defs example_defs added_def)
  then obtain c where c: "handleNewMessage exampleDHT ?C = Some (True, c)"
    "added ?C c = [EvTimerAfterFunc dhtStreamIdleTimeout, EvGetMode modeServer,
           EvReadMsg [] (Some io_EOF), EvReleaseMsg [], EvTimerStop]"
    by blast
  from error_counter_once[OF c(1)] obtain pre m fin where
    fc: "added ?C c = pre @ EvGetMode m # fin" "filter isGetMode fin = []"
      "\<forall>msgbytes. EvReadMsg msgbytes (Some io_EOF) \<in> set fin \<longrightarrow>
         filter (isAdd ReceivedMessageErrors) (added ?C c) = []"
    by blast
  from fc(1,2) c(2) have "EvReadMsg [] (Some io_EOF) \<in> set fin"
    by (auto simp: append_eq_Cons_conv Cons_eq_append_conv)
  with fc c(1) have C:
    "\<exists>w'. handleNewMessage exampleDHT ?C = Some (True, w')
      \<and> (\<exists>pre m fin. added ?C w' = pre @ EvGetMode m # fin
            \<and> filter isGetMode fin = [] \<and> EvReadMsg [] (Some io_EOF) \<in> set fin)
      \<and> filter (isAdd ReceivedMessageErrors) (added ?C w') = []"
    by blast
  have "\<exists>w'. handleNewMessage exampleDHT ?D = Some (False, w')
      \<and> added ?D w' = [EvTimerAfterFunc dhtStreamIdleTimeout, EvGetMode modeServer,
           EvReadMsg [] (Some (OtherError ''stream reset'')), EvReleaseMsg [], EvTimerStop]"
    by (simp add: run_defs example_defs added_def)
  then obtain d where d: "handleNewMessage exampleDHT ?D = Some (False, d)"
    "added ?D d = [EvTimerAfterFunc dhtStreamIdleTimeout, EvGetMode modeServer,
           EvReadMsg [] (Some (OtherError ''stream reset'')), EvReleaseMsg [], EvTimerStop]"
    by blast
  from error_counter_once[OF d(1)] obtain pre m fin where
    fd: "added ?D d = pre @ EvGetMode m # fin" "filter isGetMode fin = []"
      "\<forall>err. EvReadMsg [] (Some err) \<in> set fin \<longrightarrow>
         filter (isAdd ReceivedMessageErrors) (added ?D d) = []"
    by blast
  from fd(1,2) d(2) have "EvReadMsg [] (Some (OtherError ''stream reset'')) \<in> set fin"
    by (auto simp: append_eq_Cons_conv Cons_eq_append_conv)
  with fd d(1) have D:
    "\<exists>w'. handleNewMessage exampleDHT ?D = Some (False, w')
      \<and> (\<exists>pre m fin. added ?D w' = pre @ EvGetMode m # fin
            \<and> filter isGetMode fin = []
            \<and> EvReadMsg [] (Some (OtherError ''stream reset'')) \<in> set fin)
      \<and> filter (isAdd ReceivedMessageErrors) (added ?D w') = []"
    by blast
  from A B C D show ?thesis by blast
qed

end
